theory Spec2Isabelle
  imports Complex_Main "HOL-Library.Word"
begin

unbundle bit_operations_syntax

section \<open>The hand tracker of \<^verbatim>\<open>Modelo/python/hand_tracker.py\<close>\<close>

text \<open>
  A shallow embedding of the class \<^verbatim>\<open>HandTracker\<close>. Python floats are modelled as
  \<open>real\<close> (no claim below depends on rounding), Python ints as \<open>int\<close>, strings as
  \<open>string\<close>. The object \<^verbatim>\<open>self\<close> is a record that every method takes and returns.
  What the external libraries (OpenCV, MediaPipe, onnxruntime, the socket layer, the clock)
  answer in one loop iteration is an explicit input, the record \<open>cycle_env\<close>; what the
  program does to the outside world is an explicit output, a list of \<open>event\<close>s. Console
  prints are not modelled.
\<close>

subsection \<open>Images and frames\<close>

type_synonym pixel = "8 word \<times> 8 word \<times> 8 word"

text \<open>An image is the list of its rows (an array of shape \<open>(h, w, 3)\<close>).\<close>

type_synonym image = "pixel list list"

record landmark =
  lm_x :: real
  lm_y :: real
  lm_z :: real

text \<open>\<^verbatim>\<open>hand_landmarks.landmark\<close>: the points MediaPipe reports for one hand.\<close>

type_synonym hand = "landmark list"

text \<open>
  The drawing and resizing calls of OpenCV are kept symbolic: a frame is the captured
  image together with the operations applied to it so far, in order.
\<close>

datatype caption =
    Status bool
  | Letter string
  | Conf real
  | Fps real
  | BigLetter string
  | Instructions

datatype cv_op =
    DrawLandmarks hand
  | Panel
  | PutText caption "int \<times> int"
  | Resize int int

record frame =
  pixels :: image
  ops :: "cv_op list"

definition of_image :: "image \<Rightarrow> frame" where
  "of_image img = \<lparr>pixels = img, ops = []\<rparr>"

text \<open>\<^verbatim>\<open>frame.shape\<close> as (height, width); a \<open>Resize w h\<close> replaces it.\<close>

definition image_shape :: "image \<Rightarrow> int \<times> int" where
  "image_shape img = (int (length img), (case img of [] \<Rightarrow> 0 | r # _ \<Rightarrow> int (length r)))"

fun op_shape :: "cv_op \<Rightarrow> int \<times> int \<Rightarrow> int \<times> int" where
  "op_shape (Resize w h) s = (h, w)"
| "op_shape (DrawLandmarks hl) s = s"
| "op_shape Panel s = s"
| "op_shape (PutText c p) s = s"

definition shape :: "frame \<Rightarrow> int \<times> int" where
  "shape f = fold op_shape (ops f) (image_shape (pixels f))"

text \<open>
  Modelled from the spec: \<^verbatim>\<open>cv2.flip(frame, 1)\<close> is OpenCV's code, not the repository's;
  the spec calls it a deterministic horizontal flip, that is, every row is reversed.
\<close>

definition cv2_flip :: "image \<Rightarrow> image" where
  "cv2_flip img = map rev img"

text \<open>\<^verbatim>\<open>cv2.cvtColor(frame, cv2.COLOR_BGR2RGB)\<close>: the channels of every pixel swapped.\<close>

definition cvtColor_BGR2RGB :: "image \<Rightarrow> image" where
  "cvtColor_BGR2RGB img = map (map (\<lambda>(b, g, r). (r, g, b))) img"

subsection \<open>The classifier's answer\<close>

text \<open>
  \<^verbatim>\<open>outputs = self.onnx_session.run(None, {self.input_name: input_data})\<close> either raises
  or returns a list: \<^verbatim>\<open>outputs[0]\<close> is the label tensor, every further output is
  \<^verbatim>\<open>None\<close> or a sequence whose element 0 is a dict from class to probability or
  something else (a tensor row). A dict is the list of its items.
\<close>

datatype prob =
    ProbDict "(string \<times> real) list"
  | ProbArray "real list"

datatype run_result =
    RunRaise
  | RunOutputs "string list" "prob list option list"

type_synonym session = "real list \<Rightarrow> run_result"

subsection \<open>Exceptions, telemetry, events\<close>

text \<open>
  \<open>KeyboardInterrupt\<close> is the one exception \<^verbatim>\<open>run\<close> handles by name; it is not an
  \<^verbatim>\<open>Exception\<close>. \<open>OtherError\<close> stands for every subclass of \<^verbatim>\<open>Exception\<close>.
\<close>

datatype exn = KeyboardInterrupt | OtherError

record telemetry =
  msg_hand_detected :: bool
  msg_landmarks :: "real list"
  msg_letter :: string
  msg_confidence :: real
  msg_timestamp :: real

datatype payload =
    Json telemetry
  | Jpeg "8 word list"

text \<open>
  \<open>Sendto s p a ok\<close>: the call \<^verbatim>\<open>sendto(p, a)\<close> on socket \<open>s\<close>; \<open>ok\<close> is false when
  the call raised. \<open>Imencode f q\<close>: the call of \<^verbatim>\<open>cv2.imencode\<close> on frame \<open>f\<close>.
\<close>

datatype event =
    Sendto nat payload "string \<times> int" bool
  | Imencode frame int
  | Imshow frame
  | CapRelease
  | HandsClose
  | SockClose nat
  | DestroyAllWindows

datatype capture = VideoCapture bool

fun isOpened :: "capture \<Rightarrow> bool" where
  "isOpened (VideoCapture b) = b"

datatype detector = Hands

subsection \<open>The object\<close>

record tracker =
  udp_ip :: string
  udp_port :: int
  udp_video_port :: "int option"
  video_fps :: real
  video_width :: int
  video_jpeg_quality :: int
  mirror_mode :: bool
  show_window :: bool
  is_running :: bool
  current_letter :: string
  confidence :: real
  fps :: real
  last_video_send_time :: real
  hands :: "detector option"
  onnx_session :: "session option"
  sock :: "nat option"
  cap :: "capture option"

text \<open>The arguments of \<^verbatim>\<open>__init__\<close> that the model keeps.\<close>

record config =
  cfg_udp_ip :: string
  cfg_udp_port :: int
  cfg_udp_video_port :: "int option"
  cfg_video_fps :: real
  cfg_video_width :: int
  cfg_video_jpeg_quality :: int
  cfg_mirror_mode :: bool
  cfg_show_window :: bool

text \<open>
  What the libraries answer during \<^verbatim>\<open>__init__\<close>: the loaded model (\<open>None\<close> when
  \<^verbatim>\<open>_init_onnx\<close> caught an exception and set \<^verbatim>\<open>self.onnx_session = None\<close>), the
  descriptor of the socket that \<^verbatim>\<open>socket.socket\<close> creates, and whether the camera opened.
\<close>

record init_env =
  loaded_model :: "session option"
  new_socket :: nat
  camera_opens :: bool

text \<open>
  \<^verbatim>\<open>__init__\<close> with \<^verbatim>\<open>_init_mediapipe\<close>, \<^verbatim>\<open>_init_onnx\<close>, \<^verbatim>\<open>_init_socket\<close> and
  \<^verbatim>\<open>_init_camera\<close>: one detector, one session or none, one socket, one capture object.
\<close>

definition init :: "config \<Rightarrow> init_env \<Rightarrow> tracker" where
  "init cfg ienv =
     \<lparr>udp_ip = cfg_udp_ip cfg,
      udp_port = cfg_udp_port cfg,
      udp_video_port = cfg_udp_video_port cfg,
      video_fps = cfg_video_fps cfg,
      video_width = cfg_video_width cfg,
      video_jpeg_quality = cfg_video_jpeg_quality cfg,
      mirror_mode = cfg_mirror_mode cfg,
      show_window = cfg_show_window cfg,
      is_running = False,
      current_letter = [],
      confidence = 0,
      fps = 0,
      last_video_send_time = 0,
      hands = Some Hands,
      onnx_session = loaded_model ienv,
      sock = Some (new_socket ienv),
      cap = Some (VideoCapture (camera_opens ienv))\<rparr>"

subsection \<open>\<^verbatim>\<open>extract_landmarks\<close> and \<^verbatim>\<open>predict_letter\<close>\<close>

fun extract_landmarks :: "hand \<Rightarrow> real list" where
  "extract_landmarks [] = []"
| "extract_landmarks (landmark # rest) =
     lm_x landmark # lm_y landmark # lm_z landmark # extract_landmarks rest"

text \<open>Python's \<^verbatim>\<open>max\<close> over a non-empty iterable: keep the first, replace it by a greater.\<close>

fun py_max :: "real \<Rightarrow> real list \<Rightarrow> real" where
  "py_max m [] = m"
| "py_max m (v # vs) = py_max (if v > m then v else m) vs"

text \<open>
  Every \<^verbatim>\<open>IndexError\<close> of the body (\<^verbatim>\<open>outputs[0][0]\<close>, \<^verbatim>\<open>outputs[1][0]\<close>) is raised
  inside the \<^verbatim>\<open>try\<close> and ends in the handler's \<^verbatim>\<open>("?", 0.0)\<close>.
\<close>

definition predict_letter :: "session option \<Rightarrow> real list \<Rightarrow> string \<times> real" where
  "predict_letter session landmarks =
     (case session of
        None \<Rightarrow> (''?'', 0)
      | Some run \<Rightarrow>
          (case run landmarks of
             RunRaise \<Rightarrow> (''?'', 0)
           | RunOutputs labels others \<Rightarrow>
               (case labels of
                  [] \<Rightarrow> (''?'', 0)
                | predicted_label # _ \<Rightarrow>
                    (case others of
                       Some probs # _ \<Rightarrow>
                         (case probs of
                            [] \<Rightarrow> (''?'', 0)
                          | ProbDict probabilities # _ \<Rightarrow>
                              (predicted_label,
                               (case map snd probabilities of
                                  [] \<Rightarrow> 0
                                | v # vs \<Rightarrow> py_max v vs))
                          | ProbArray _ # _ \<Rightarrow> (predicted_label, 1))
                     | _ \<Rightarrow> (predicted_label, 1)))))"

subsection \<open>One loop iteration's inputs\<close>

text \<open>\<^verbatim>\<open>ret, frame = self.cap.read()\<close>: a frame, \<^verbatim>\<open>ret = False\<close>, or an exception.\<close>

datatype read_result =
    ReadFrame image
  | ReadFail
  | ReadRaise exn

text \<open>\<^verbatim>\<open>ok, buf = cv2.imencode('.jpg', frame, encode_params)\<close>, or an exception.\<close>

datatype enc_result =
    EncRaise
  | Encoded bool "8 word list"

text \<open>
  \<open>read\<close>: what \<^verbatim>\<open>cap.read()\<close> answers; \<open>process\<close>: what
  \<^verbatim>\<open>self.hands.process(rgb_frame).multi_hand_landmarks\<close> holds (the empty list for
  \<^verbatim>\<open>None\<close>), or the exception it raises; \<open>t_send\<close>, \<open>t_fps\<close>, \<open>t_video\<close>: the
  three readings of \<^verbatim>\<open>time.time()\<close>, in \<^verbatim>\<open>send_to_unity\<close>, in the FPS computation
  and in \<^verbatim>\<open>_send_video_frame_to_unity\<close>; \<open>telemetry_send_ok\<close>, \<open>video_send_ok\<close>:
  whether the two \<^verbatim>\<open>sendto\<close> calls return; \<open>imencode\<close>: the JPEG codec; \<open>key\<close>: what
  \<^verbatim>\<open>cv2.waitKey(1)\<close> returns.
\<close>

record cycle_env =
  read :: read_result
  process :: "image \<Rightarrow> exn + hand list"
  t_send :: real
  t_fps :: real
  t_video :: real
  telemetry_send_ok :: bool
  video_send_ok :: bool
  imencode :: "frame \<Rightarrow> int \<Rightarrow> enc_result"
  key :: int

subsection \<open>\<^verbatim>\<open>send_to_unity\<close>\<close>

text \<open>
  The message is built from the arguments; \<^verbatim>\<open>self.sock.sendto\<close> is inside the
  \<^verbatim>\<open>try\<close>, so a missing socket (an \<^verbatim>\<open>AttributeError\<close>) and a failing send are both
  swallowed.
\<close>

definition send_to_unity ::
  "tracker \<Rightarrow> cycle_env \<Rightarrow> real list \<Rightarrow> string \<Rightarrow> real \<Rightarrow> bool \<Rightarrow> event list" where
  "send_to_unity self env landmarks letter conf hand_detected =
     (let data = \<lparr>msg_hand_detected = hand_detected,
                  msg_landmarks = (if hand_detected then landmarks else []),
                  msg_letter = letter,
                  msg_confidence = conf,
                  msg_timestamp = t_send env\<rparr>
      in case sock self of
           None \<Rightarrow> []
         | Some s \<Rightarrow> [Sendto s (Json data) (udp_ip self, udp_port self) (telemetry_send_ok env)])"

subsection \<open>\<^verbatim>\<open>_send_video_frame_to_unity\<close>\<close>

text \<open>\<^verbatim>\<open>np.clip(a, a_min, a_max)\<close>.\<close>

definition np_clip :: "int \<Rightarrow> int \<Rightarrow> int \<Rightarrow> int" where
  "np_clip a a_min a_max = min a_max (max a a_min)"

text \<open>Lines 300 to 304: the frame as it is, or with a \<open>Resize\<close> to the configured width.\<close>

definition resized :: "tracker \<Rightarrow> frame \<Rightarrow> frame" where
  "resized self frame_bgr =
     (if video_width self > 0 \<and> snd (shape frame_bgr) > video_width self
      then (let scale = real_of_int (video_width self) / real_of_int (snd (shape frame_bgr));
                new_h = max 1 \<lfloor>real_of_int (fst (shape frame_bgr)) * scale\<rfloor>
            in frame_bgr\<lparr>ops := ops frame_bgr @ [Resize (video_width self) new_h]\<rparr>)
      else frame_bgr)"

definition send_video_frame_to_unity ::
  "tracker \<Rightarrow> cycle_env \<Rightarrow> frame \<Rightarrow> tracker \<times> event list" where
  "send_video_frame_to_unity self env frame_bgr =
     (case udp_video_port self of
        None \<Rightarrow> (self, [])
      | Some port \<Rightarrow>
          (let now = t_video env in
           if video_fps self > 0 \<and> now - last_video_send_time self < 1 / video_fps self
           then (self, [])
           else
             (let frame = resized self frame_bgr;
                  quality = np_clip (video_jpeg_quality self) 10 95
              in case imencode env frame quality of
                   EncRaise \<Rightarrow> (self, [Imencode frame quality])
                 | Encoded ok buf \<Rightarrow>
                     if \<not> ok then (self, [Imencode frame quality])
                     else if length buf > 65000 then (self, [Imencode frame quality])
                     else
                       (case sock self of
                          None \<Rightarrow> (self, [Imencode frame quality])
                        | Some s \<Rightarrow>
                            if video_send_ok env
                            then (self\<lparr>last_video_send_time := now\<rparr>,
                                  [Imencode frame quality,
                                   Sendto s (Jpeg buf) (udp_ip self, port) True])
                            else (self,
                                  [Imencode frame quality,
                                   Sendto s (Jpeg buf) (udp_ip self, port) False])))))"

subsection \<open>\<^verbatim>\<open>draw_overlay\<close>\<close>

definition draw_overlay :: "tracker \<Rightarrow> frame \<Rightarrow> hand option \<Rightarrow> string \<Rightarrow> real \<Rightarrow> frame" where
  "draw_overlay self frame hand_landmarks letter conf =
     (let h = fst (shape frame); w = snd (shape frame)
      in frame\<lparr>ops := ops frame
           @ (case hand_landmarks of Some hl \<Rightarrow> [DrawLandmarks hl] | None \<Rightarrow> [])
           @ [Panel, PutText (Status (hand_landmarks \<noteq> None)) (20, 35)]
           @ (if hand_landmarks \<noteq> None \<and> letter \<noteq> []
              then [PutText (Letter letter) (20, 65), PutText (Conf conf) (20, 95)] else [])
           @ [PutText (Fps (fps self)) (20, 120)]
           @ (if hand_landmarks \<noteq> None \<and> letter \<noteq> [] \<and> letter \<noteq> ''?''
              then [PutText (BigLetter letter) (w - 100, 80)] else [])
           @ [PutText Instructions (10, h - 15)]\<rparr>)"

subsection \<open>\<^verbatim>\<open>cleanup\<close>\<close>

definition cleanup :: "tracker \<Rightarrow> tracker \<times> event list" where
  "cleanup self =
     (self\<lparr>is_running := False,
           cap := (case cap self of Some c \<Rightarrow> Some (VideoCapture False) | None \<Rightarrow> None)\<rparr>,
      (case cap self of Some c \<Rightarrow> [CapRelease] | None \<Rightarrow> [])
      @ (case hands self of Some h \<Rightarrow> [HandsClose] | None \<Rightarrow> [])
      @ (case sock self of Some s \<Rightarrow> [SockClose s] | None \<Rightarrow> [])
      @ [DestroyAllWindows])"

subsection \<open>The body of the loop in \<^verbatim>\<open>run\<close>\<close>

text \<open>Lines 410 to 412: \<^verbatim>\<open>if self.mirror_mode: frame = cv2.flip(frame, 1)\<close>.\<close>

definition mirrored :: "tracker \<Rightarrow> image \<Rightarrow> image" where
  "mirrored self img = (if mirror_mode self then cv2_flip img else img)"

text \<open>
  Lines 420 to 440: the variables of this frame and the two attributes the block writes,
  \<open>(self, hand_detected, landmarks, letter, confidence, hand_landmarks_draw)\<close>. Only
  the first reported hand is read.
\<close>

definition frame_vars ::
  "tracker \<Rightarrow> hand list \<Rightarrow> tracker \<times> bool \<times> real list \<times> string \<times> real \<times> hand option" where
  "frame_vars self multi_hand_landmarks =
     (case multi_hand_landmarks of
        [] \<Rightarrow> (self, False, [], [], 0, None)
      | hand_landmarks # _ \<Rightarrow>
          (let landmarks = extract_landmarks hand_landmarks;
               (letter, conf) = predict_letter (onnx_session self) landmarks
           in (self\<lparr>current_letter := letter, confidence := conf\<rparr>,
               True, landmarks, letter, conf, Some hand_landmarks)))"

text \<open>Lines 445 to 451: the frame counter and the FPS, recomputed once a second.\<close>

definition update_fps :: "tracker \<Rightarrow> real \<times> nat \<Rightarrow> real \<Rightarrow> tracker \<times> real \<times> nat" where
  "update_fps self lv current_time =
     (let prev_time = fst lv; frame_count = snd lv + 1
      in if current_time - prev_time \<ge> 1
         then (self\<lparr>fps := real frame_count / (current_time - prev_time)\<rparr>, current_time, 0)
         else (self, prev_time, frame_count))"

text \<open>
  How one iteration ends: the loop goes on (\<^verbatim>\<open>continue\<close> or the end of the body),
  \<^verbatim>\<open>break\<close>, or an exception leaves the body. Each carries the object, the loop's local
  variables \<open>(prev_time, frame_count)\<close> where they are still needed, and the events of
  the iteration.
\<close>

datatype outcome =
    Continue tracker "real \<times> nat" "event list"
  | Break tracker "event list"
  | Raise exn tracker "event list"

text \<open>
  Lines 465 to 472 stand in the \<^verbatim>\<open>else\<close> branch of \<^verbatim>\<open>if self.show_window\<close>: the
  keys are read only when the window is not shown. \<^verbatim>\<open>ord('q')\<close> is 113 and
  \<^verbatim>\<open>ord('m')\<close> is 109.
\<close>

definition run_cycle :: "tracker \<Rightarrow> real \<times> nat \<Rightarrow> cycle_env \<Rightarrow> outcome" where
  "run_cycle self lv env =
     (case read env of
        ReadRaise e \<Rightarrow> Raise e self []
      | ReadFail \<Rightarrow> Continue self lv []
      | ReadFrame raw \<Rightarrow>
          (let img = mirrored self raw;
               rgb_frame = cvtColor_BGR2RGB img
           in case process env rgb_frame of
                Inl e \<Rightarrow> Raise e self []
              | Inr multi_hand_landmarks \<Rightarrow>
                  (let (self1, hand_detected, landmarks, letter, conf, hand_landmarks_draw) =
                         frame_vars self multi_hand_landmarks;
                       sent = send_to_unity self1 env landmarks letter conf hand_detected;
                       (self2, lv2) = update_fps self1 lv (t_fps env)
                   in if show_window self2
                      then
                        (let display_frame =
                               draw_overlay self2 (of_image img) hand_landmarks_draw letter conf;
                             (self3, video) = send_video_frame_to_unity self2 env display_frame
                         in Continue self3 lv2 (sent @ [Imshow display_frame] @ video))
                      else
                        (let (self3, video) = send_video_frame_to_unity self2 env (of_image img);
                             k = key env AND 255
                         in if k = 113 then Break self3 (sent @ video)
                            else if k = 109
                            then Continue (self3\<lparr>mirror_mode := \<not> mirror_mode self3\<rparr>) lv2
                                   (sent @ video)
                            else Continue self3 lv2 (sent @ video)))))"

subsection \<open>\<^verbatim>\<open>run\<close>\<close>

text \<open>
  The loop \<^verbatim>\<open>while self.is_running\<close> consumes one \<open>cycle_env\<close> per iteration. It is
  driven by the outside world and need not end: when the inputs given are used up and
  the loop has not left, the result is \<open>Pending\<close>.
\<close>

datatype loop_end =
    Exited tracker "event list"
  | Raised exn tracker "event list"
  | Pending tracker "real \<times> nat" "event list"

fun run_loop :: "tracker \<Rightarrow> real \<times> nat \<Rightarrow> event list \<Rightarrow> cycle_env list \<Rightarrow> loop_end" where
  "run_loop self lv trace [] =
     (if is_running self then Pending self lv trace else Exited self trace)"
| "run_loop self lv trace (env # envs) =
     (if is_running self
      then (case run_cycle self lv env of
              Continue self' lv' evs \<Rightarrow> run_loop self' lv' (trace @ evs) envs
            | Break self' evs \<Rightarrow> Exited self' (trace @ evs)
            | Raise e self' evs \<Rightarrow> Raised e self' (trace @ evs))
      else Exited self trace)"

text \<open>
  How \<^verbatim>\<open>run\<close> ends: it returns, an exception propagates to the caller, or it is still
  in the loop.
\<close>

datatype run_end =
    Returned tracker "event list"
  | Propagated exn tracker "event list"
  | Running tracker "event list"

text \<open>
  The guard of lines 386 to 388 returns before the \<^verbatim>\<open>try\<close>. Inside the \<^verbatim>\<open>try\<close>,
  \<^verbatim>\<open>KeyboardInterrupt\<close> is handled, anything else propagates, and the \<^verbatim>\<open>finally\<close> clause
  calls \<^verbatim>\<open>cleanup\<close> either way. \<open>t0\<close> is the first reading of the clock (line 399).
\<close>

definition run :: "tracker \<Rightarrow> real \<Rightarrow> cycle_env list \<Rightarrow> run_end" where
  "run self t0 envs =
     (case cap self of
        None \<Rightarrow> Propagated OtherError self []
      | Some c \<Rightarrow>
          if \<not> isOpened c then Returned self []
          else
            (case run_loop (self\<lparr>is_running := True\<rparr>) (t0, 0) [] envs of
               Exited self' trace \<Rightarrow>
                 (let (self'', released) = cleanup self' in Returned self'' (trace @ released))
             | Raised KeyboardInterrupt self' trace \<Rightarrow>
                 (let (self'', released) = cleanup self' in Returned self'' (trace @ released))
             | Raised OtherError self' trace \<Rightarrow>
                 (let (self'', released) = cleanup self'
                  in Propagated OtherError self'' (trace @ released))
             | Pending self' lv trace \<Rightarrow> Running self' trace))"

subsection \<open>Reading results\<close>

fun events_of :: "outcome \<Rightarrow> event list" where
  "events_of (Continue self lv evs) = evs"
| "events_of (Break self evs) = evs"
| "events_of (Raise e self evs) = evs"

fun state_of :: "outcome \<Rightarrow> tracker" where
  "state_of (Continue self lv evs) = self"
| "state_of (Break self evs) = self"
| "state_of (Raise e self evs) = self"

fun raises :: "outcome \<Rightarrow> bool" where
  "raises (Continue self lv evs) = False"
| "raises (Break self evs) = False"
| "raises (Raise e self evs) = True"

fun breaks :: "outcome \<Rightarrow> bool" where
  "breaks (Continue self lv evs) = False"
| "breaks (Break self evs) = True"
| "breaks (Raise e self evs) = False"

fun loop_trace :: "loop_end \<Rightarrow> event list" where
  "loop_trace (Exited self trace) = trace"
| "loop_trace (Raised e self trace) = trace"
| "loop_trace (Pending self lv trace) = trace"

fun loop_state :: "loop_end \<Rightarrow> tracker" where
  "loop_state (Exited self trace) = self"
| "loop_state (Raised e self trace) = self"
| "loop_state (Pending self lv trace) = self"

fun run_trace :: "run_end \<Rightarrow> event list" where
  "run_trace (Returned self trace) = trace"
| "run_trace (Propagated e self trace) = trace"
| "run_trace (Running self trace) = trace"

fun run_state :: "run_end \<Rightarrow> tracker" where
  "run_state (Returned self trace) = self"
| "run_state (Propagated e self trace) = self"
| "run_state (Running self trace) = self"

text \<open>The operations that draw on a frame, as opposed to resizing it.\<close>

fun is_drawing :: "cv_op \<Rightarrow> bool" where
  "is_drawing (Resize w h) = False"
| "is_drawing (DrawLandmarks hl) = True"
| "is_drawing Panel = True"
| "is_drawing (PutText c p) = True"

text \<open>The attributes that no statement of the loop assigns.\<close>

definition same_setup :: "tracker \<Rightarrow> tracker \<Rightarrow> bool" where
  "same_setup a b \<longleftrightarrow>
     udp_ip a = udp_ip b \<and> udp_port a = udp_port b \<and> udp_video_port a = udp_video_port b \<and>
     video_fps a = video_fps b \<and> video_width a = video_width b \<and>
     video_jpeg_quality a = video_jpeg_quality b \<and> show_window a = show_window b \<and>
     is_running a = is_running b \<and> hands a = hands b \<and> onnx_session a = onnx_session b \<and>
     sock a = sock b \<and> cap a = cap b"

subsection \<open>Sample inputs\<close>

text \<open>The defaults of the command line (\<^verbatim>\<open>main\<close>) and of \<^verbatim>\<open>__init__\<close>.\<close>

definition default_config :: config where
  "default_config =
     \<lparr>cfg_udp_ip = ''127.0.0.1'', cfg_udp_port = 5005, cfg_udp_video_port = Some 5006,
      cfg_video_fps = 10, cfg_video_width = 320, cfg_video_jpeg_quality = 55,
      cfg_mirror_mode = True, cfg_show_window = True\<rparr>"

text \<open>A hand of 21 points, a two by two image, a classifier that answers A at 0.92.\<close>

definition sample_hand :: hand where
  "sample_hand =
     map (\<lambda>i. \<lparr>lm_x = real i / 100, lm_y = real i / 50, lm_z = - (real i / 1000)\<rparr>) [0..<21]"

definition sample_image :: image where
  "sample_image = [[(1, 2, 3), (4, 5, 6)], [(7, 8, 9), (10, 11, 12)]]"

definition sample_session :: session where
  "sample_session = (\<lambda>landmarks. RunOutputs [''A''] [Some [ProbDict [(''A'', 92 / 100), (''B'', 8 / 100)]]])"

definition sample_init_env :: init_env where
  "sample_init_env = \<lparr>loaded_model = Some sample_session, new_socket = 3, camera_opens = True\<rparr>"

definition sample_env :: cycle_env where
  "sample_env =
     \<lparr>read = ReadFrame sample_image,
      process = (\<lambda>rgb. Inr [sample_hand]),
      t_send = 100, t_fps = 100, t_video = 100,
      telemetry_send_ok = True, video_send_ok = True,
      imencode = (\<lambda>f q. Encoded True [255, 216]),
      key = - 1\<rparr>"

section \<open>Facts about the parts\<close>

lemma py_max_fold: "py_max v vs = fold max vs v"
  by (induction vs arbitrary: v) (simp_all add: max_def)

lemma py_max_Max: "py_max v vs = Max (set (v # vs))"
  by (simp only: py_max_fold Max.set_eq_fold)

lemma extract_landmarks_length: "length (extract_landmarks hl) = 3 * length hl"
  by (induction hl) simp_all

lemma extract_landmarks_nth:
  "i < length hl \<Longrightarrow>
     extract_landmarks hl ! (3 * i) = lm_x (hl ! i) \<and>
     extract_landmarks hl ! (3 * i + 1) = lm_y (hl ! i) \<and>
     extract_landmarks hl ! (3 * i + 2) = lm_z (hl ! i)"
proof (induction hl arbitrary: i)
  case Nil
  then show ?case by simp
next
  case (Cons p ps)
  show ?case
  proof (cases i)
    case 0
    then show ?thesis by simp
  next
    case (Suc j)
    with Cons.prems have "j < length ps" by simp
    from Cons.IH[OF this] Suc show ?thesis by (simp add: numeral_3_eq_3 numeral_2_eq_2)
  qed
qed


lemma send_to_unity_event:
  "e \<in> set (send_to_unity self env landmarks letter conf hand_detected) \<Longrightarrow>
   \<exists>s. sock self = Some s \<and>
       e = Sendto s (Json \<lparr>msg_hand_detected = hand_detected,
                           msg_landmarks = (if hand_detected then landmarks else []),
                           msg_letter = letter, msg_confidence = conf,
                           msg_timestamp = t_send env\<rparr>)
             (udp_ip self, udp_port self) (telemetry_send_ok env)"
  by (auto simp: send_to_unity_def split: option.splits)

lemma send_to_unity_sends:
  "sock self = Some s \<Longrightarrow>
   send_to_unity self env landmarks letter conf hand_detected =
     [Sendto s (Json \<lparr>msg_hand_detected = hand_detected,
                           msg_landmarks = (if hand_detected then landmarks else []),
                           msg_letter = letter, msg_confidence = conf,
                           msg_timestamp = t_send env\<rparr>)
             (udp_ip self, udp_port self) (telemetry_send_ok env)]"
  by (simp add: send_to_unity_def)

lemma send_video_state:
  "fst (send_video_frame_to_unity self env f) = self \<or>
   fst (send_video_frame_to_unity self env f) = self\<lparr>last_video_send_time := t_video env\<rparr>"
  by (simp add: send_video_frame_to_unity_def Let_def split: option.splits enc_result.splits)

lemma send_video_event:
  "e \<in> set (snd (send_video_frame_to_unity self env f)) \<Longrightarrow>
   e = Imencode (resized self f) (np_clip (video_jpeg_quality self) 10 95) \<or>
   (\<exists>s port buf. sock self = Some s \<and> udp_video_port self = Some port \<and>
      imencode env (resized self f) (np_clip (video_jpeg_quality self) 10 95) = Encoded True buf \<and>
      length buf \<le> 65000 \<and>
      \<not> (video_fps self > 0 \<and> t_video env - last_video_send_time self < 1 / video_fps self) \<and>
      e = Sendto s (Jpeg buf) (udp_ip self, port) (video_send_ok env))"
  by (auto simp: send_video_frame_to_unity_def Let_def split: option.splits enc_result.splits if_splits)

lemma frame_vars_Nil: "frame_vars self [] = (self, False, [], [], 0, None)"
  by (simp add: frame_vars_def)

lemma frame_vars_Cons:
  "frame_vars self (hl # rest) =
     (self\<lparr>current_letter := fst (predict_letter (onnx_session self) (extract_landmarks hl)),
           confidence := snd (predict_letter (onnx_session self) (extract_landmarks hl))\<rparr>,
      True, extract_landmarks hl,
      fst (predict_letter (onnx_session self) (extract_landmarks hl)),
      snd (predict_letter (onnx_session self) (extract_landmarks hl)), Some hl)"
  by (simp add: frame_vars_def Let_def split: prod.splits)

lemma frame_vars_self:
  "\<exists>cl cf. fst (frame_vars self hs) = self\<lparr>current_letter := cl, confidence := cf\<rparr>"
proof (cases hs)
  case Nil
  have "self = self\<lparr>current_letter := current_letter self, confidence := confidence self\<rparr>"
    by simp
  with Nil show ?thesis by (metis frame_vars_Nil fst_conv)
next
  case (Cons hl rest)
  then show ?thesis by (metis frame_vars_Cons fst_conv)
qed

lemma send_to_unity_letter:
  "send_to_unity (self\<lparr>current_letter := cl, confidence := cf\<rparr>) = send_to_unity self"
  by (simp add: send_to_unity_def fun_eq_iff split: option.splits)

lemma update_fps_fst:
  "fst (update_fps (self\<lparr>current_letter := cl, confidence := cf\<rparr>) lv t) =
   self\<lparr>current_letter := cl, confidence := cf, fps := fps (fst (update_fps self lv t))\<rparr>"
  by (simp add: update_fps_def Let_def)

lemma run_cycle_frame:
  assumes rd: "read env = ReadFrame raw"
    and pr: "process env (cvtColor_BGR2RGB (mirrored self raw)) = Inr hs"
    and fv: "frame_vars self hs = (self1, d, lms, l, c, hdraw)"
  shows "\<exists>cl cf self2 fr.
     self2 = self\<lparr>current_letter := cl, confidence := cf,
                  fps := fps (fst (update_fps self lv (t_fps env)))\<rparr> \<and>
     fr = (if show_window self
           then draw_overlay self2 (of_image (mirrored self raw)) hdraw l c
           else of_image (mirrored self raw)) \<and>
     events_of (run_cycle self lv env) =
       send_to_unity self env lms l c d
       @ (if show_window self then [Imshow fr] else [])
       @ snd (send_video_frame_to_unity self2 env fr) \<and>
     (state_of (run_cycle self lv env) = fst (send_video_frame_to_unity self2 env fr) \<or>
      \<not> show_window self \<and> key env AND 255 = 109 \<and>
      state_of (run_cycle self lv env) =
        (fst (send_video_frame_to_unity self2 env fr))\<lparr>mirror_mode := \<not> mirror_mode self\<rparr>) \<and>
     \<not> raises (run_cycle self lv env)"
proof -
  from frame_vars_self[of self hs] fv obtain cl cf
    where s1: "self1 = self\<lparr>current_letter := cl, confidence := cf\<rparr>" by auto
  define self2 where "self2 = self\<lparr>current_letter := cl, confidence := cf,
                  fps := fps (fst (update_fps self lv (t_fps env)))\<rparr>"
  define lv2 where "lv2 = snd (update_fps self1 lv (t_fps env))"
  define fr where "fr = (if show_window self
           then draw_overlay self2 (of_image (mirrored self raw)) hdraw l c
           else of_image (mirrored self raw))"
  have upd: "update_fps self1 lv (t_fps env) = (self2, lv2)"
    by (simp add: s1 self2_def lv2_def prod_eq_iff update_fps_fst)
  have sw: "show_window self2 = show_window self"
    by (simp add: self2_def)
  have stu: "send_to_unity self1 = send_to_unity self"
    by (simp add: s1 send_to_unity_letter)
  have mm: "mirror_mode (fst (send_video_frame_to_unity self2 env fr)) = mirror_mode self"
    using send_video_state[of self2 env fr] by (auto simp: self2_def)
  have ev: "events_of (run_cycle self lv env) =
       send_to_unity self env lms l c d
       @ (if show_window self then [Imshow fr] else [])
       @ snd (send_video_frame_to_unity self2 env fr)"
    using rd pr fv upd sw stu
    by (simp add: run_cycle_def Let_def fr_def split: prod.splits)
  have st: "state_of (run_cycle self lv env) = fst (send_video_frame_to_unity self2 env fr) \<or>
      \<not> show_window self \<and> key env AND 255 = 109 \<and>
      state_of (run_cycle self lv env) =
        (fst (send_video_frame_to_unity self2 env fr))\<lparr>mirror_mode := \<not> mirror_mode self\<rparr>"
    using rd pr fv upd sw stu mm
    by (auto simp add: run_cycle_def Let_def fr_def split: prod.splits)
  have nr: "\<not> raises (run_cycle self lv env)"
    using rd pr fv upd sw
    by (simp add: run_cycle_def Let_def split: prod.splits)
  from self2_def ev st nr fr_def show ?thesis by blast
qed

lemma same_setup_refl: "same_setup a a"
  by (simp add: same_setup_def)

lemma same_setup_trans: "same_setup a b \<Longrightarrow> same_setup b c \<Longrightarrow> same_setup a c"
  by (simp add: same_setup_def)

lemma run_cycle_events_frame:
  assumes "e \<in> set (events_of (run_cycle self lv env))"
  shows "\<exists>raw hs. read env = ReadFrame raw \<and>
           process env (cvtColor_BGR2RGB (mirrored self raw)) = Inr hs"
proof (cases "read env")
  case (ReadFrame raw)
  show ?thesis
  proof (cases "process env (cvtColor_BGR2RGB (mirrored self raw))")
    case (Inl x)
    with ReadFrame assms show ?thesis by (simp add: run_cycle_def Let_def)
  next
    case (Inr hs)
    with ReadFrame show ?thesis by simp
  qed
next
  case ReadFail
  with assms show ?thesis by (simp add: run_cycle_def)
next
  case (ReadRaise x)
  with assms show ?thesis by (simp add: run_cycle_def)
qed

lemma send_video_setup: "same_setup self (fst (send_video_frame_to_unity self env f))"
  using send_video_state[of self env f] by (auto simp: same_setup_def)

lemma run_cycle_setup: "same_setup self (state_of (run_cycle self lv env))"
proof (cases "read env")
  case (ReadFrame raw)
  show ?thesis
  proof (cases "process env (cvtColor_BGR2RGB (mirrored self raw))")
    case (Inl e)
    with ReadFrame have "state_of (run_cycle self lv env) = self"
      by (simp add: run_cycle_def Let_def)
    then show ?thesis by (simp add: same_setup_refl)
  next
    case (Inr hs)
    obtain self1 d lms l c hdraw where fv: "frame_vars self hs = (self1, d, lms, l, c, hdraw)"
      by (metis prod_cases3)
    from run_cycle_frame[OF ReadFrame Inr fv, of lv] obtain cl cf self2 fr where
      s2: "self2 = self\<lparr>current_letter := cl, confidence := cf,
                fps := fps (fst (update_fps self lv (t_fps env)))\<rparr>"
      and st: "state_of (run_cycle self lv env) = fst (send_video_frame_to_unity self2 env fr) \<or>
        state_of (run_cycle self lv env) =
          (fst (send_video_frame_to_unity self2 env fr))\<lparr>mirror_mode := \<not> mirror_mode self\<rparr>"
      by blast
    have a: "same_setup self self2" by (simp add: s2 same_setup_def)
    have b: "same_setup self2 (fst (send_video_frame_to_unity self2 env fr))"
      by (rule send_video_setup)
    have c: "same_setup self2
       ((fst (send_video_frame_to_unity self2 env fr))\<lparr>mirror_mode := \<not> mirror_mode self\<rparr>)"
      using b by (simp add: same_setup_def)
    from st show ?thesis
    proof
      assume "state_of (run_cycle self lv env) = fst (send_video_frame_to_unity self2 env fr)"
      with a b show ?thesis by (simp add: same_setup_trans[OF a b])
    next
      assume "state_of (run_cycle self lv env) =
          (fst (send_video_frame_to_unity self2 env fr))\<lparr>mirror_mode := \<not> mirror_mode self\<rparr>"
      then show ?thesis by (simp add: same_setup_trans[OF a c])
    qed
  qed
next
  case ReadFail
  then have "state_of (run_cycle self lv env) = self"
    by (simp add: run_cycle_def)
  then show ?thesis by (simp add: same_setup_refl)
next
  case (ReadRaise e)
  then have "state_of (run_cycle self lv env) = self"
    by (simp add: run_cycle_def)
  then show ?thesis by (simp add: same_setup_refl)
qed

lemma run_loop_trace:
  "e \<in> set (loop_trace (run_loop self lv tr envs)) \<Longrightarrow>
   e \<in> set tr \<or>
   (\<exists>self' lv' env. env \<in> set envs \<and> same_setup self self' \<and>
      e \<in> set (events_of (run_cycle self' lv' env)))"
proof (induction envs arbitrary: self lv tr)
  case Nil
  then show ?case by (simp split: if_splits)
next
  case (Cons env envs)
  show ?case
  proof (cases "is_running self")
    case False
    with Cons.prems show ?thesis by simp
  next
    case True
    note keep = run_cycle_setup[of self lv env]
    show ?thesis
    proof (cases "run_cycle self lv env")
      case (Continue self' lv' evs)
      with True Cons.prems have "e \<in> set (loop_trace (run_loop self' lv' (tr @ evs) envs))"
        by simp
      from Cons.IH[OF this] consider "e \<in> set tr" | "e \<in> set evs"
        | self'' lv'' env' where "env' \<in> set envs" "same_setup self' self''"
            "e \<in> set (events_of (run_cycle self'' lv'' env'))"
        by auto
      then show ?thesis
      proof cases
        case 1
        then show ?thesis by simp
      next
        case 2
        with Continue have "e \<in> set (events_of (run_cycle self lv env))" by simp
        then show ?thesis using same_setup_refl[of self] by (meson list.set_intros(1))
      next
        case 3
        from keep Continue have "same_setup self self'" by simp
        with 3 have "same_setup self self''" by (blast intro: same_setup_trans)
        with 3 show ?thesis by (meson list.set_intros(2))
      qed
    next
      case (Break self' evs)
      with True Cons.prems have "e \<in> set tr \<or> e \<in> set evs" by simp
      with Break have "e \<in> set tr \<or> e \<in> set (events_of (run_cycle self lv env))" by simp
      then show ?thesis using same_setup_refl[of self] by (meson list.set_intros(1))
    next
      case (Raise x self' evs)
      with True Cons.prems have "e \<in> set tr \<or> e \<in> set evs" by simp
      with Raise have "e \<in> set tr \<or> e \<in> set (events_of (run_cycle self lv env))" by simp
      then show ?thesis using same_setup_refl[of self] by (meson list.set_intros(1))
    qed
  qed
qed

lemma run_loop_setup: "same_setup self (loop_state (run_loop self lv tr envs))"
proof (induction envs arbitrary: self lv tr)
  case Nil
  then show ?case by (simp add: same_setup_refl)
next
  case (Cons env envs)
  show ?case
  proof (cases "is_running self")
    case False
    then show ?thesis by (simp add: same_setup_refl)
  next
    case True
    note keep = run_cycle_setup[of self lv env]
    show ?thesis
    proof (cases "run_cycle self lv env")
      case (Continue self' lv' evs)
      with keep have "same_setup self self'" by simp
      moreover have "same_setup self' (loop_state (run_loop self' lv' (tr @ evs) envs))"
        by (rule Cons.IH)
      ultimately show ?thesis using True Continue by (simp add: same_setup_trans)
    next
      case (Break self' evs)
      with keep True show ?thesis by simp
    next
      case (Raise x self' evs)
      with keep True show ?thesis by simp
    qed
  qed
qed

lemma cleanup_events:
  "e \<in> set (snd (cleanup self)) \<Longrightarrow>
   e = CapRelease \<or> e = HandsClose \<or> e = DestroyAllWindows \<or> (\<exists>s. e = SockClose s)"
  by (auto simp: cleanup_def split: option.splits)

lemma run_trace_cases:
  assumes "e \<in> set (run_trace (run self t0 envs))"
  shows "e = CapRelease \<or> e = HandsClose \<or> e = DestroyAllWindows \<or> (\<exists>s. e = SockClose s) \<or>
    (\<exists>self' lv env. env \<in> set envs \<and> same_setup (self\<lparr>is_running := True\<rparr>) self' \<and>
       e \<in> set (events_of (run_cycle self' lv env)))"
proof (cases "cap self")
  case None
  with assms show ?thesis by (simp add: run_def)
next
  case (Some c)
  show ?thesis
  proof (cases "isOpened c")
    case False
    with Some assms show ?thesis by (simp add: run_def)
  next
    case True
    define r where "r = run_loop (self\<lparr>is_running := True\<rparr>) (t0, 0) [] envs"
    have "e \<in> set (loop_trace r) \<or> e \<in> set (snd (cleanup (loop_state r)))"
      using assms Some True unfolding run_def r_def[symmetric]
      by (cases r) (auto split: exn.splits prod.splits)
    then show ?thesis
    proof
      assume "e \<in> set (loop_trace r)"
      from run_loop_trace[OF this[unfolded r_def]] show ?thesis by simp
    next
      assume "e \<in> set (snd (cleanup (loop_state r)))"
      from cleanup_events[OF this] show ?thesis by blast
    qed
  qed
qed

lemma run_cycle_telemetry:
  assumes "Sendto s (Json m) a ok \<in> set (events_of (run_cycle self lv env))"
  shows "\<exists>raw hs self1 d lms l c hdraw.
           read env = ReadFrame raw \<and>
           process env (cvtColor_BGR2RGB (mirrored self raw)) = Inr hs \<and>
           frame_vars self hs = (self1, d, lms, l, c, hdraw) \<and>
           sock self = Some s \<and> a = (udp_ip self, udp_port self) \<and>
           ok = telemetry_send_ok env \<and>
           m = \<lparr>msg_hand_detected = d, msg_landmarks = (if d then lms else []),
                msg_letter = l, msg_confidence = c, msg_timestamp = t_send env\<rparr>"
proof -
  from run_cycle_events_frame[OF assms] obtain raw hs where
    rd: "read env = ReadFrame raw" and
    pr: "process env (cvtColor_BGR2RGB (mirrored self raw)) = Inr hs" by blast
  obtain self1 d lms l c hdraw where fv: "frame_vars self hs = (self1, d, lms, l, c, hdraw)"
    by (metis prod_cases3)
  from run_cycle_frame[OF rd pr fv, of lv] obtain self2 fr where
    ev: "events_of (run_cycle self lv env) =
       send_to_unity self env lms l c d
       @ (if show_window self then [Imshow fr] else [])
       @ snd (send_video_frame_to_unity self2 env fr)"
    by blast
  from assms ev consider
      "Sendto s (Json m) a ok \<in> set (send_to_unity self env lms l c d)"
    | "Sendto s (Json m) a ok \<in> set (snd (send_video_frame_to_unity self2 env fr))"
    by (auto split: if_splits)
  then show ?thesis
  proof cases
    case 1
    from send_to_unity_event[OF 1] rd pr fv show ?thesis by auto
  next
    case 2
    from send_video_event[OF 2] show ?thesis by auto
  qed
qed

lemma send_to_unity_no_jpeg:
  "Sendto s (Jpeg buf) a ok \<notin> set (send_to_unity self env lms l c d)"
  by (auto simp: send_to_unity_def split: option.splits)

lemma send_to_unity_no_imencode:
  "Imencode f q \<notin> set (send_to_unity self env lms l c d)"
  by (auto simp: send_to_unity_def split: option.splits)

lemma send_video_skip:
  assumes "imencode env (resized self f) (np_clip (video_jpeg_quality self) 10 95) = Encoded ok big"
    and "length big > 65000"
  shows "fst (send_video_frame_to_unity self env f) = self"
    and "Sendto s p a ok' \<notin> set (snd (send_video_frame_to_unity self env f))"
  using assms
  by (auto simp: send_video_frame_to_unity_def Let_def split: option.splits)

lemma send_video_last:
  "last_video_send_time (fst (send_video_frame_to_unity self env f)) =
     (if (\<exists>s buf a. Sendto s (Jpeg buf) a True \<in> set (snd (send_video_frame_to_unity self env f)))
      then t_video env else last_video_send_time self)"
  by (auto simp: send_video_frame_to_unity_def Let_def split: option.splits enc_result.splits)

lemma send_video_attempt:
  assumes "udp_video_port self = Some port"
    and "\<not> (video_fps self > 0 \<and> t_video env - last_video_send_time self < 1 / video_fps self)"
  shows "Imencode (resized self f) (np_clip (video_jpeg_quality self) 10 95)
           \<in> set (snd (send_video_frame_to_unity self env f))"
  using assms
  by (auto simp: send_video_frame_to_unity_def Let_def split: option.splits enc_result.splits)

lemma run_cycle_jpeg:
  assumes "Sendto s (Jpeg buf) a ok \<in> set (events_of (run_cycle self lv env))"
  shows "length buf \<le> 65000 \<and> sock self = Some s \<and>
         (\<exists>port. udp_video_port self = Some port \<and> a = (udp_ip self, port)) \<and>
         \<not> (video_fps self > 0 \<and> t_video env - last_video_send_time self < 1 / video_fps self)"
proof -
  from run_cycle_events_frame[OF assms] obtain raw hs where
    rd: "read env = ReadFrame raw" and
    pr: "process env (cvtColor_BGR2RGB (mirrored self raw)) = Inr hs" by blast
  obtain self1 d lms l c hdraw where fv: "frame_vars self hs = (self1, d, lms, l, c, hdraw)"
    by (metis prod_cases3)
  from run_cycle_frame[OF rd pr fv, of lv] obtain cl cf self2 fr where
    s2: "self2 = self\<lparr>current_letter := cl, confidence := cf,
                  fps := fps (fst (update_fps self lv (t_fps env)))\<rparr>" and
    ev: "events_of (run_cycle self lv env) =
       send_to_unity self env lms l c d
       @ (if show_window self then [Imshow fr] else [])
       @ snd (send_video_frame_to_unity self2 env fr)"
    by blast
  from assms ev have "Sendto s (Jpeg buf) a ok \<in> set (snd (send_video_frame_to_unity self2 env fr))"
    by (auto simp: send_to_unity_no_jpeg split: if_splits)
  from send_video_event[OF this] show ?thesis by (auto simp: s2)
qed

lemma run_cycle_imencode:
  assumes "Imencode f q \<in> set (events_of (run_cycle self lv env))"
  shows "udp_video_port self \<noteq> None"
proof -
  from run_cycle_events_frame[OF assms] obtain raw hs where
    rd: "read env = ReadFrame raw" and
    pr: "process env (cvtColor_BGR2RGB (mirrored self raw)) = Inr hs" by blast
  obtain self1 d lms l c hdraw where fv: "frame_vars self hs = (self1, d, lms, l, c, hdraw)"
    by (metis prod_cases3)
  from run_cycle_frame[OF rd pr fv, of lv] obtain cl cf self2 fr where
    s2: "self2 = self\<lparr>current_letter := cl, confidence := cf,
                  fps := fps (fst (update_fps self lv (t_fps env)))\<rparr>" and
    ev: "events_of (run_cycle self lv env) =
       send_to_unity self env lms l c d
       @ (if show_window self then [Imshow fr] else [])
       @ snd (send_video_frame_to_unity self2 env fr)"
    by blast
  from assms ev have "Imencode f q \<in> set (snd (send_video_frame_to_unity self2 env fr))"
    by (auto simp: send_to_unity_no_imencode split: if_splits)
  then have "udp_video_port self2 \<noteq> None"
    by (auto simp: send_video_frame_to_unity_def split: option.splits)
  then show ?thesis by (simp add: s2)
qed

lemma run_cycle_last_video_send_time:
  "last_video_send_time (state_of (run_cycle self lv env)) =
     (if (\<exists>s buf a. Sendto s (Jpeg buf) a True \<in> set (events_of (run_cycle self lv env)))
      then t_video env else last_video_send_time self)"
proof (cases "\<exists>raw hs. read env = ReadFrame raw \<and>
           process env (cvtColor_BGR2RGB (mirrored self raw)) = Inr hs")
  case False
  have "events_of (run_cycle self lv env) = []"
    using False run_cycle_events_frame[of _ self lv env]
    by (cases "events_of (run_cycle self lv env)") (auto simp del: not_ex)
  moreover have "state_of (run_cycle self lv env) = self"
    using False by (cases "read env") (auto simp: run_cycle_def Let_def split: sum.splits)
  ultimately show ?thesis by simp
next
  case True
  then obtain raw hs where
    rd: "read env = ReadFrame raw" and
    pr: "process env (cvtColor_BGR2RGB (mirrored self raw)) = Inr hs" by blast
  obtain self1 d lms l c hdraw where fv: "frame_vars self hs = (self1, d, lms, l, c, hdraw)"
    by (metis prod_cases3)
  from run_cycle_frame[OF rd pr fv, of lv] obtain cl cf self2 fr where
    s2: "self2 = self\<lparr>current_letter := cl, confidence := cf,
                  fps := fps (fst (update_fps self lv (t_fps env)))\<rparr>" and
    ev: "events_of (run_cycle self lv env) =
       send_to_unity self env lms l c d
       @ (if show_window self then [Imshow fr] else [])
       @ snd (send_video_frame_to_unity self2 env fr)" and
    st: "state_of (run_cycle self lv env) = fst (send_video_frame_to_unity self2 env fr) \<or>
      state_of (run_cycle self lv env) =
        (fst (send_video_frame_to_unity self2 env fr))\<lparr>mirror_mode := \<not> mirror_mode self\<rparr>"
    by blast
  have same: "(\<exists>s buf a. Sendto s (Jpeg buf) a True \<in> set (events_of (run_cycle self lv env))) =
     (\<exists>s buf a. Sendto s (Jpeg buf) a True \<in> set (snd (send_video_frame_to_unity self2 env fr)))"
    by (auto simp: ev send_to_unity_no_jpeg)
  have "last_video_send_time (state_of (run_cycle self lv env)) =
        last_video_send_time (fst (send_video_frame_to_unity self2 env fr))"
    using st by auto
  also have "\<dots> = (if (\<exists>s buf a. Sendto s (Jpeg buf) a True
                          \<in> set (snd (send_video_frame_to_unity self2 env fr)))
                   then t_video env else last_video_send_time self2)"
    by (rule send_video_last)
  finally have "last_video_send_time (state_of (run_cycle self lv env)) =
      (if (\<exists>s buf a. Sendto s (Jpeg buf) a True
                          \<in> set (snd (send_video_frame_to_unity self2 env fr)))
                   then t_video env else last_video_send_time self2)" .
  moreover have "last_video_send_time self2 = last_video_send_time self" by (simp add: s2)
  ultimately show ?thesis by (simp only: same)
qed

lemma draw_overlay_of_image:
  "pixels (draw_overlay self (of_image img) hdraw l c) = img \<and>
   filter is_drawing (ops (draw_overlay self (of_image img) hdraw l c)) =
     ops (draw_overlay self (of_image img) hdraw l c) \<and>
   Panel \<in> set (ops (draw_overlay self (of_image img) hdraw l c)) \<and>
   PutText (Status (hdraw \<noteq> None)) (20, 35) \<in> set (ops (draw_overlay self (of_image img) hdraw l c)) \<and>
   PutText (Fps (fps self)) (20, 120) \<in> set (ops (draw_overlay self (of_image img) hdraw l c)) \<and>
   (\<forall>hl. hdraw = Some hl \<longrightarrow>
      DrawLandmarks hl \<in> set (ops (draw_overlay self (of_image img) hdraw l c)))"
  by (cases hdraw) (simp_all add: draw_overlay_def of_image_def Let_def)

lemma resized_keeps:
  "pixels (resized self f) = pixels f \<and>
   filter is_drawing (ops (resized self f)) = filter is_drawing (ops f) \<and>
   set (ops f) \<subseteq> set (ops (resized self f))"
  by (auto simp: resized_def Let_def)

lemma frame_vars_draw:
  "frame_vars self hs = (self1, d, lms, l, c, hdraw) \<Longrightarrow>
   hdraw = (case hs of [] \<Rightarrow> None | hl # rest \<Rightarrow> Some hl)"
  by (cases hs) (simp_all add: frame_vars_Nil frame_vars_Cons)

lemma run_cycle_window_never_breaks:
  assumes "show_window self"
  shows "\<not> breaks (run_cycle self lv env) \<and>
         mirror_mode (state_of (run_cycle self lv env)) = mirror_mode self"
proof (cases "\<exists>raw hs. read env = ReadFrame raw \<and>
           process env (cvtColor_BGR2RGB (mirrored self raw)) = Inr hs")
  case False
  then have "run_cycle self lv env = Continue self lv [] \<or>
             (\<exists>e. run_cycle self lv env = Raise e self [])"
    by (cases "read env") (auto simp: run_cycle_def Let_def split: sum.splits)
  then show ?thesis by auto
next
  case True
  then obtain raw hs where
    rd: "read env = ReadFrame raw" and
    pr: "process env (cvtColor_BGR2RGB (mirrored self raw)) = Inr hs" by blast
  obtain self1 d lms l c hdraw where fv: "frame_vars self hs = (self1, d, lms, l, c, hdraw)"
    by (metis prod_cases3)
  from frame_vars_self[of self hs] fv obtain cl cf
    where s1: "self1 = self\<lparr>current_letter := cl, confidence := cf\<rparr>" by auto
  obtain self2 lv2 where upd: "update_fps self1 lv (t_fps env) = (self2, lv2)"
    by (cases "update_fps self1 lv (t_fps env)") auto
  have "fst (update_fps self1 lv (t_fps env)) = self\<lparr>current_letter := cl, confidence := cf,
                  fps := fps (fst (update_fps self lv (t_fps env)))\<rparr>"
    unfolding s1 by (rule update_fps_fst)
  with upd have s2: "self2 = self\<lparr>current_letter := cl, confidence := cf,
                  fps := fps (fst (update_fps self lv (t_fps env)))\<rparr>" by simp
  have sw: "show_window self2" using assms by (simp add: s2)
  have nb: "\<not> breaks (run_cycle self lv env)"
    using rd pr fv upd sw by (simp add: run_cycle_def Let_def split: prod.splits)
  from run_cycle_frame[OF rd pr fv, of lv] assms obtain cl' cf' self2' fr where
    s2': "self2' = self\<lparr>current_letter := cl', confidence := cf',
                  fps := fps (fst (update_fps self lv (t_fps env)))\<rparr>" and
    st: "state_of (run_cycle self lv env) = fst (send_video_frame_to_unity self2' env fr)"
    by auto
  have "mirror_mode (fst (send_video_frame_to_unity self2' env fr)) = mirror_mode self2'"
    using send_video_state[of self2' env fr] by auto
  also have "\<dots> = mirror_mode self" by (simp add: s2')
  finally show ?thesis using nb st by simp
qed

lemma cleanup_after_the_loop:
  assumes cam: "camera_opens ienv"
    and ended: "run (init cfg ienv) t0 envs = Returned s tr \<or>
                run (init cfg ienv) t0 envs = Propagated e s tr"
  shows "\<exists>tr'. tr = tr' @ [CapRelease, HandsClose, SockClose (new_socket ienv), DestroyAllWindows]"
proof -
  define r where "r = run_loop (init cfg ienv\<lparr>is_running := True\<rparr>) (t0, 0) [] envs"
  have "same_setup (init cfg ienv\<lparr>is_running := True\<rparr>) (loop_state r)"
    unfolding r_def by (rule run_loop_setup)
  then have f: "cap (loop_state r) = Some (VideoCapture True)" "hands (loop_state r) = Some Hands"
    "sock (loop_state r) = Some (new_socket ienv)"
    using cam by (simp_all add: same_setup_def init_def)
  then have cl: "snd (cleanup (loop_state r)) =
      [CapRelease, HandsClose, SockClose (new_socket ienv), DestroyAllWindows]"
    by (simp add: cleanup_def)
  have c: "cap (init cfg ienv) = Some (VideoCapture True)" using cam by (simp add: init_def)
  from ended have "tr = loop_trace r @ snd (cleanup (loop_state r))"
    unfolding run_def c r_def[symmetric]
    by (cases r) (auto split: exn.splits prod.splits)
  with cl show ?thesis by simp
qed

subsection \<open>The sample inputs, evaluated\<close>

lemmas eval_defs = run_cycle_def sample_env_def init_def default_config_def sample_init_env_def Let_def
     mirrored_def frame_vars_def predict_letter_def sample_session_def update_fps_def
     send_to_unity_def send_video_frame_to_unity_def resized_def np_clip_def draw_overlay_def
     shape_def of_image_def image_shape_def cv2_flip_def sample_image_def

lemma sample_cycle_no_window:
  "events_of (run_cycle (init default_config sample_init_env\<lparr>show_window := False\<rparr>) (0, 0) sample_env) =
     [Sendto 3 (Json \<lparr>msg_hand_detected = True, msg_landmarks = extract_landmarks sample_hand,
                       msg_letter = ''A'', msg_confidence = 92 / 100, msg_timestamp = 100\<rparr>)
        (''127.0.0.1'', 5005) True,
      Imencode (of_image (cv2_flip sample_image)) 55,
      Sendto 3 (Jpeg [255, 216]) (''127.0.0.1'', 5006) True]"
  by (simp add: eval_defs)

lemma sample_cycle_window:
  "events_of (run_cycle (init default_config sample_init_env) (0, 0) sample_env) =
     [Sendto 3 (Json \<lparr>msg_hand_detected = True, msg_landmarks = extract_landmarks sample_hand,
                       msg_letter = ''A'', msg_confidence = 92 / 100, msg_timestamp = 100\<rparr>)
        (''127.0.0.1'', 5005) True,
      Imshow \<lparr>pixels = cv2_flip sample_image,
              ops = [DrawLandmarks sample_hand, Panel, PutText (Status True) (20, 35),
                     PutText (Letter ''A'') (20, 65), PutText (Conf (92 / 100)) (20, 95),
                     PutText (Fps (1 / 100)) (20, 120), PutText (BigLetter ''A'') (- 98, 80),
                     PutText Instructions (10, - 13)]\<rparr>,
      Imencode \<lparr>pixels = cv2_flip sample_image,
              ops = [DrawLandmarks sample_hand, Panel, PutText (Status True) (20, 35),
                     PutText (Letter ''A'') (20, 65), PutText (Conf (92 / 100)) (20, 95),
                     PutText (Fps (1 / 100)) (20, 120), PutText (BigLetter ''A'') (- 98, 80),
                     PutText Instructions (10, - 13)]\<rparr> 55,
      Sendto 3 (Jpeg [255, 216]) (''127.0.0.1'', 5006) True]"
  by (simp add: eval_defs)

lemma sample_run:
  "run_trace (run (init default_config sample_init_env\<lparr>show_window := False\<rparr>) 0 [sample_env\<lparr>key := 113\<rparr>]) =
     [Sendto 3 (Json \<lparr>msg_hand_detected = True, msg_landmarks = extract_landmarks sample_hand,
                       msg_letter = ''A'', msg_confidence = 92 / 100, msg_timestamp = 100\<rparr>)
        (''127.0.0.1'', 5005) True,
      Imencode (of_image (cv2_flip sample_image)) 55,
      Sendto 3 (Jpeg [255, 216]) (''127.0.0.1'', 5006) True,
      CapRelease, HandsClose, SockClose 3, DestroyAllWindows]"
  by (simp add: eval_defs run_def cleanup_def)

lemma sample_hand_length: "length sample_hand = 21"
  by (simp add: sample_hand_def)

lemma init_window_off:
  "init default_config sample_init_env\<lparr>show_window := False\<rparr> =
   init (default_config\<lparr>cfg_show_window := False\<rparr>) sample_init_env"
  by (simp add: init_def default_config_def)

section \<open>The claims\<close>

subsection \<open>C1: the keys q and m\<close>

text \<open>
  C1, against the code. The claim reads the keys when the debug window is enabled and
  not otherwise. The key handling (lines 465 to 472) is indented under the \<^verbatim>\<open>else\<close> of
  \<^verbatim>\<open>if self.show_window\<close>: with the window enabled no iteration breaks out of the loop
  and none changes the mirror mode, whatever key is pressed (at the defaults, q and m
  change nothing); with the window disabled, q breaks and m toggles.
\<close>

theorem keys_read_only_without_window:
  "\<not> breaks (run_cycle (self\<lparr>show_window := True\<rparr>) lv env) \<and>
   mirror_mode (state_of (run_cycle (self\<lparr>show_window := True\<rparr>) lv env)) = mirror_mode self \<and>
   \<not> breaks (run_cycle (init default_config sample_init_env) (0, 0) (sample_env\<lparr>key := 113\<rparr>)) \<and>
   mirror_mode (state_of (run_cycle (init default_config sample_init_env) (0, 0)
                            (sample_env\<lparr>key := 109\<rparr>))) = True \<and>
   breaks (run_cycle (init default_config sample_init_env\<lparr>show_window := False\<rparr>) (0, 0)
             (sample_env\<lparr>key := 113\<rparr>)) \<and>
   mirror_mode (state_of (run_cycle (init default_config sample_init_env\<lparr>show_window := False\<rparr>)
                            (0, 0) (sample_env\<lparr>key := 109\<rparr>))) = False"
proof -
  have a: "\<not> breaks (run_cycle (self\<lparr>show_window := True\<rparr>) lv env) \<and>
   mirror_mode (state_of (run_cycle (self\<lparr>show_window := True\<rparr>) lv env)) = mirror_mode self"
    using run_cycle_window_never_breaks[of "self\<lparr>show_window := True\<rparr>" lv env] by simp
  have b: "\<not> breaks (run_cycle (init default_config sample_init_env) (0, 0) (sample_env\<lparr>key := 113\<rparr>))"
    by (simp add: eval_defs)
  have c: "mirror_mode (state_of (run_cycle (init default_config sample_init_env) (0, 0)
                            (sample_env\<lparr>key := 109\<rparr>))) = True"
    by (simp add: eval_defs)
  have d: "breaks (run_cycle (init default_config sample_init_env\<lparr>show_window := False\<rparr>) (0, 0)
             (sample_env\<lparr>key := 113\<rparr>))"
    by (simp add: eval_defs)
  have e: "mirror_mode (state_of (run_cycle (init default_config sample_init_env\<lparr>show_window := False\<rparr>)
                            (0, 0) (sample_env\<lparr>key := 109\<rparr>))) = False"
    by (simp add: eval_defs)
  from a b c d e show ?thesis by simp
qed

subsection \<open>C2: the teardown\<close>

text \<open>
  C2, against the code. When the camera did not open, \<^verbatim>\<open>run\<close> returns at line 388,
  before the \<^verbatim>\<open>try\<close>: no call of \<^verbatim>\<open>cleanup\<close> is made, and the socket, the detector
  and the capture object that \<^verbatim>\<open>__init__\<close> created are not released. (On every way out
  of the \<^verbatim>\<open>try\<close>, \<open>cleanup_after_the_loop\<close> shows the release.)
\<close>

theorem run_without_camera_releases_nothing:
  "run (init cfg (ienv\<lparr>camera_opens := False\<rparr>)) t0 envs =
     Returned (init cfg (ienv\<lparr>camera_opens := False\<rparr>)) [] \<and>
   sock (init cfg (ienv\<lparr>camera_opens := False\<rparr>)) = Some (new_socket ienv) \<and>
   hands (init cfg (ienv\<lparr>camera_opens := False\<rparr>)) = Some Hands \<and>
   cap (init cfg (ienv\<lparr>camera_opens := False\<rparr>)) = Some (VideoCapture False)"
  by (simp add: run_def init_def)

subsection \<open>C3: the socket of the two channels\<close>

text \<open>
  C3, as the code has it. The claim asks for two sockets, one per channel. Here is a run
  of one iteration in which the telemetry message and the preview datagram both leave
  through socket 3, the only socket \<^verbatim>\<open>_init_socket\<close> created.
\<close>

theorem telemetry_and_preview_share_socket:
  "Sendto 3 (Json \<lparr>msg_hand_detected = True, msg_landmarks = extract_landmarks sample_hand,
                    msg_letter = ''A'', msg_confidence = 92 / 100, msg_timestamp = 100\<rparr>)
     (''127.0.0.1'', 5005) True
     \<in> set (run_trace (run (init (default_config\<lparr>cfg_show_window := False\<rparr>) sample_init_env) 0
               [sample_env\<lparr>key := 113\<rparr>])) \<and>
   Sendto 3 (Jpeg [255, 216]) (''127.0.0.1'', 5006) True
     \<in> set (run_trace (run (init (default_config\<lparr>cfg_show_window := False\<rparr>) sample_init_env) 0
               [sample_env\<lparr>key := 113\<rparr>]))"
  by (simp add: init_window_off[symmetric] sample_run)

text \<open>
  C3, amended. The object owns one datagram socket, created once by \<^verbatim>\<open>_init_socket\<close>.
  Every \<^verbatim>\<open>sendto\<close> of a run, telemetry or preview, goes through that one socket; the
  channels differ in the destination port only: telemetry goes to
  \<open>(udp_ip, udp_port)\<close>, preview to \<open>(udp_ip, udp_video_port)\<close>.
\<close>

theorem one_socket_for_both_channels:
  assumes "Sendto s p a ok \<in> set (run_trace (run (init cfg ienv) t0 envs))"
  shows "s = new_socket ienv \<and>
         (case p of
            Json m \<Rightarrow> a = (cfg_udp_ip cfg, cfg_udp_port cfg)
          | Jpeg buf \<Rightarrow> (\<exists>port. cfg_udp_video_port cfg = Some port \<and> a = (cfg_udp_ip cfg, port)))"
proof -
  from run_trace_cases[OF assms] obtain self' lv env where
    same: "same_setup (init cfg ienv\<lparr>is_running := True\<rparr>) self'" and
    ev: "Sendto s p a ok \<in> set (events_of (run_cycle self' lv env))"
    by auto
  from same have f: "sock self' = Some (new_socket ienv)" "udp_ip self' = cfg_udp_ip cfg"
    "udp_port self' = cfg_udp_port cfg" "udp_video_port self' = cfg_udp_video_port cfg"
    by (simp_all add: same_setup_def init_def)
  show ?thesis
  proof (cases p)
    case (Json m)
    from run_cycle_telemetry[OF ev[unfolded Json]] f Json show ?thesis by auto
  next
    case (Jpeg buf)
    from run_cycle_jpeg[OF ev[unfolded Jpeg]] f Jpeg show ?thesis by auto
  qed
qed

theorem one_socket_witness:
  "Sendto 3 (Jpeg [255, 216]) (''127.0.0.1'', 5006) True
     \<in> set (run_trace (run (init (default_config\<lparr>cfg_show_window := False\<rparr>) sample_init_env) 0
               [sample_env\<lparr>key := 113\<rparr>])) \<and>
   new_socket sample_init_env = 3 \<and>
   cfg_udp_video_port (default_config\<lparr>cfg_show_window := False\<rparr>) = Some 5006 \<and>
   cfg_udp_ip (default_config\<lparr>cfg_show_window := False\<rparr>) = ''127.0.0.1''"
proof -
  have h: "Sendto 3 (Jpeg [255, 216]) (''127.0.0.1'', 5006) True
     \<in> set (run_trace (run (init (default_config\<lparr>cfg_show_window := False\<rparr>) sample_init_env) 0
               [sample_env\<lparr>key := 113\<rparr>]))"
    by (simp add: init_window_off[symmetric] sample_run)
  from one_socket_for_both_channels[OF h] h show ?thesis by auto
qed

subsection \<open>C4: the landmarks field of a telemetry message\<close>

text \<open>
  C4. Provided every hand that MediaPipe reports has its 21 points, every telemetry
  message sent during \<^verbatim>\<open>run\<close> is of one of two kinds. With \<open>hand_detected\<close> true, its
  landmarks field has exactly 63 entries, and they are the coordinates of the 21 points
  of the first reported hand, point after point and x, y, z within a point. With
  \<open>hand_detected\<close> false, the field is the empty list.
\<close>

theorem telemetry_landmarks_63_or_empty:
  assumes hands21: "\<forall>env \<in> set envs. \<forall>img hs. process env img = Inr hs \<longrightarrow>
                      (\<forall>h \<in> set hs. length h = 21)"
    and sent: "Sendto s (Json m) a ok \<in> set (run_trace (run self t0 envs))"
  shows "(msg_hand_detected m \<longrightarrow>
            length (msg_landmarks m) = 63 \<and>
            (\<exists>env \<in> set envs. \<exists>img hl rest.
               process env img = Inr (hl # rest) \<and> length hl = 21 \<and>
               msg_landmarks m = extract_landmarks hl \<and>
               (\<forall>i < 21. msg_landmarks m ! (3 * i) = lm_x (hl ! i) \<and>
                         msg_landmarks m ! (3 * i + 1) = lm_y (hl ! i) \<and>
                         msg_landmarks m ! (3 * i + 2) = lm_z (hl ! i)))) \<and>
         (\<not> msg_hand_detected m \<longrightarrow> msg_landmarks m = [])"
proof -
  from run_trace_cases[OF sent] obtain self' lv env where
    env: "env \<in> set envs" and
    ev: "Sendto s (Json m) a ok \<in> set (events_of (run_cycle self' lv env))"
    by auto
  from run_cycle_telemetry[OF ev] obtain raw hs self1 d lms l c hdraw where
    pr: "process env (cvtColor_BGR2RGB (mirrored self' raw)) = Inr hs" and
    fv: "frame_vars self' hs = (self1, d, lms, l, c, hdraw)" and
    m: "m = \<lparr>msg_hand_detected = d, msg_landmarks = (if d then lms else []),
                msg_letter = l, msg_confidence = c, msg_timestamp = t_send env\<rparr>"
    by blast
  show ?thesis
  proof (cases hs)
    case Nil
    with fv m show ?thesis by (simp add: frame_vars_Nil)
  next
    case (Cons hl rest)
    with fv m have d: "msg_hand_detected m" and lms: "msg_landmarks m = extract_landmarks hl"
      by (simp_all add: frame_vars_Cons)
    from hands21 env pr Cons have len: "length hl = 21" by auto
    have nth: "\<forall>i < 21. msg_landmarks m ! (3 * i) = lm_x (hl ! i) \<and>
                         msg_landmarks m ! (3 * i + 1) = lm_y (hl ! i) \<and>
                         msg_landmarks m ! (3 * i + 2) = lm_z (hl ! i)"
      using extract_landmarks_nth[of _ hl] len lms by simp
    have "length (msg_landmarks m) = 63"
      by (simp add: lms extract_landmarks_length len)
    with d lms len nth env pr Cons show ?thesis by blast
  qed
qed

theorem telemetry_landmarks_witness:
  "Sendto 3 (Json \<lparr>msg_hand_detected = True, msg_landmarks = extract_landmarks sample_hand,
                    msg_letter = ''A'', msg_confidence = 92 / 100, msg_timestamp = 100\<rparr>)
     (''127.0.0.1'', 5005) True
     \<in> set (run_trace (run (init default_config sample_init_env\<lparr>show_window := False\<rparr>) 0
               [sample_env\<lparr>key := 113\<rparr>])) \<and>
   length (extract_landmarks sample_hand) = 63 \<and>
   extract_landmarks sample_hand ! (3 * 20) = lm_x (sample_hand ! 20) \<and>
   extract_landmarks sample_hand ! (3 * 20 + 1) = lm_y (sample_hand ! 20) \<and>
   extract_landmarks sample_hand ! (3 * 20 + 2) = lm_z (sample_hand ! 20)"
proof -
  let ?m = "\<lparr>msg_hand_detected = True, msg_landmarks = extract_landmarks sample_hand,
                    msg_letter = ''A'', msg_confidence = 92 / 100, msg_timestamp = 100\<rparr>"
  let ?envs = "[sample_env\<lparr>key := 113\<rparr>]"
  have h1: "\<forall>env \<in> set ?envs. \<forall>img hs. process env img = Inr hs \<longrightarrow>
                      (\<forall>h \<in> set hs. length h = 21)"
    by (auto simp: sample_env_def sample_hand_length)
  have h2: "Sendto 3 (Json ?m) (''127.0.0.1'', 5005) True
     \<in> set (run_trace (run (init default_config sample_init_env\<lparr>show_window := False\<rparr>) 0 ?envs))"
    by (simp add: sample_run)
  from telemetry_landmarks_63_or_empty[OF h1 h2] obtain hl where
    "extract_landmarks sample_hand = extract_landmarks hl" by auto
  from telemetry_landmarks_63_or_empty[OF h1 h2] have "length (extract_landmarks sample_hand) = 63"
    by simp
  with h2 extract_landmarks_nth[of 20 sample_hand] show ?thesis
    by (simp add: sample_hand_length)
qed

subsection \<open>C5: the rate limit of the preview channel\<close>

text \<open>
  C5, as the code has it. The claim lets every iteration attempt a preview send when the
  configured rate is not positive. With the rate 0 and the preview channel disabled
  (\<^verbatim>\<open>udp_video_port\<close> is \<^verbatim>\<open>None\<close>, the option \<^verbatim>\<open>--no-video\<close>), an iteration that read
  a frame sends its telemetry and does not reach the encoder. With the rate 0 and the
  channel enabled, an iteration whose \<^verbatim>\<open>cap.read()\<close> gave no frame goes straight to the
  next one (line 408) and does nothing at all.
\<close>

theorem cycles_without_preview_attempt:
  "video_fps (init default_config sample_init_env
       \<lparr>show_window := False, udp_video_port := None, video_fps := 0\<rparr>) = 0 \<and>
   read sample_env = ReadFrame sample_image \<and>
   events_of (run_cycle (init default_config sample_init_env
       \<lparr>show_window := False, udp_video_port := None, video_fps := 0\<rparr>) (0, 0) sample_env) =
     [Sendto 3 (Json \<lparr>msg_hand_detected = True, msg_landmarks = extract_landmarks sample_hand,
                       msg_letter = ''A'', msg_confidence = 92 / 100, msg_timestamp = 100\<rparr>)
        (''127.0.0.1'', 5005) True] \<and>
   udp_video_port (init default_config sample_init_env\<lparr>video_fps := 0\<rparr>) = Some 5006 \<and>
   run_cycle (init default_config sample_init_env\<lparr>video_fps := 0\<rparr>) (0, 0)
       (sample_env\<lparr>read := ReadFail\<rparr>) =
     Continue (init default_config sample_init_env\<lparr>video_fps := 0\<rparr>) (0, 0) []"
  by (simp add: eval_defs)

text \<open>
  C5, amended. In every iteration: with a rate \<open>F > 0\<close>, a preview datagram is sent only
  if the time since the last successful preview send is at least \<open>1 / F\<close>; the time of
  the last send becomes the current time exactly when a preview send succeeded, and
  stays as it was otherwise; with a rate \<open>F \<le> 0\<close> and the preview channel enabled, an
  iteration that read a frame reaches the encoder whatever the time; with the preview
  channel disabled, no iteration reaches the encoder or sends a preview datagram.
\<close>

theorem preview_rate_limit:
  "(video_fps self > 0 \<and> Sendto s (Jpeg buf) a ok \<in> set (events_of (run_cycle self lv env)) \<longrightarrow>
      1 / video_fps self \<le> t_video env - last_video_send_time self) \<and>
   last_video_send_time (state_of (run_cycle self lv env)) =
     (if (\<exists>s buf a. Sendto s (Jpeg buf) a True \<in> set (events_of (run_cycle self lv env)))
      then t_video env else last_video_send_time self) \<and>
   (video_fps self \<le> 0 \<and> udp_video_port self = Some port \<and> read env = ReadFrame raw \<and>
    process env (cvtColor_BGR2RGB (mirrored self raw)) = Inr hs \<longrightarrow>
      (\<exists>f q. Imencode f q \<in> set (events_of (run_cycle self lv env)))) \<and>
   (udp_video_port self = None \<longrightarrow>
      (\<forall>e \<in> set (events_of (run_cycle self lv env)).
         (\<forall>f q. e \<noteq> Imencode f q) \<and> (\<forall>s' buf' a' ok'. e \<noteq> Sendto s' (Jpeg buf') a' ok')))"
proof (intro conjI impI)
  assume "video_fps self > 0 \<and> Sendto s (Jpeg buf) a ok \<in> set (events_of (run_cycle self lv env))"
  with run_cycle_jpeg[of s buf a ok self lv env]
  show "1 / video_fps self \<le> t_video env - last_video_send_time self" by auto
next
  show "last_video_send_time (state_of (run_cycle self lv env)) =
     (if (\<exists>s buf a. Sendto s (Jpeg buf) a True \<in> set (events_of (run_cycle self lv env)))
      then t_video env else last_video_send_time self)"
    by (rule run_cycle_last_video_send_time)
next
  assume h: "video_fps self \<le> 0 \<and> udp_video_port self = Some port \<and> read env = ReadFrame raw \<and>
    process env (cvtColor_BGR2RGB (mirrored self raw)) = Inr hs"
  then have rd: "read env = ReadFrame raw" and
    pr: "process env (cvtColor_BGR2RGB (mirrored self raw)) = Inr hs" by blast+
  obtain self1 d lms l c hdraw where fv: "frame_vars self hs = (self1, d, lms, l, c, hdraw)"
    by (metis prod_cases3)
  from run_cycle_frame[OF rd pr fv, of lv] obtain cl cf self2 fr where
    s2: "self2 = self\<lparr>current_letter := cl, confidence := cf,
                  fps := fps (fst (update_fps self lv (t_fps env)))\<rparr>" and
    ev: "events_of (run_cycle self lv env) =
       send_to_unity self env lms l c d
       @ (if show_window self then [Imshow fr] else [])
       @ snd (send_video_frame_to_unity self2 env fr)"
    by blast
  have "Imencode (resized self2 fr) (np_clip (video_jpeg_quality self2) 10 95)
           \<in> set (snd (send_video_frame_to_unity self2 env fr))"
    using h by (intro send_video_attempt[of self2 port]) (simp_all add: s2)
  then show "\<exists>f q. Imencode f q \<in> set (events_of (run_cycle self lv env))"
    unfolding ev by auto
next
  assume n: "udp_video_port self = None"
  show "\<forall>e \<in> set (events_of (run_cycle self lv env)).
         (\<forall>f q. e \<noteq> Imencode f q) \<and> (\<forall>s' buf' a' ok'. e \<noteq> Sendto s' (Jpeg buf') a' ok')"
    using n run_cycle_imencode[of _ _ self lv env] run_cycle_jpeg[of _ _ _ _ self lv env]
    by auto
qed

theorem preview_rate_limit_witness:
  "1 / video_fps (init default_config sample_init_env\<lparr>show_window := False\<rparr>)
     \<le> t_video sample_env
        - last_video_send_time (init default_config sample_init_env\<lparr>show_window := False\<rparr>) \<and>
   last_video_send_time (state_of (run_cycle
       (init default_config sample_init_env\<lparr>show_window := False\<rparr>) (0, 0) sample_env)) = 100 \<and>
   Imencode (of_image (cv2_flip sample_image)) 55
     \<in> set (events_of (run_cycle
         (init default_config sample_init_env\<lparr>show_window := False, video_fps := 0\<rparr>) (0, 0)
         sample_env))"
proof -
  let ?self = "init default_config sample_init_env\<lparr>show_window := False\<rparr>"
  let ?free = "init default_config sample_init_env\<lparr>show_window := False, video_fps := 0\<rparr>"
  have sent: "Sendto 3 (Jpeg [255, 216]) (''127.0.0.1'', 5006) True
                \<in> set (events_of (run_cycle ?self (0, 0) sample_env))"
    by (simp add: sample_cycle_no_window)
  have fps: "video_fps ?self > 0" by (simp add: init_def default_config_def)
  have t: "t_video sample_env = 100" by (simp add: sample_env_def)
  have free: "video_fps ?free \<le> 0 \<and> udp_video_port ?free = Some 5006 \<and>
      read sample_env = ReadFrame sample_image \<and>
      process sample_env (cvtColor_BGR2RGB (mirrored ?free sample_image)) = Inr [sample_hand]"
    by (simp add: init_def default_config_def sample_env_def)
  have ev: "Imencode (of_image (cv2_flip sample_image)) 55
     \<in> set (events_of (run_cycle ?free (0, 0) sample_env))"
    by (simp add: eval_defs)
  from preview_rate_limit[of ?self 3 "[255, 216]" "(''127.0.0.1'', 5006)" True "(0, 0)" sample_env]
    preview_rate_limit[of ?free _ _ _ _ "(0, 0)" sample_env 5006 sample_image "[sample_hand]"]
    sent fps t free ev
  show ?thesis by auto
qed

subsection \<open>C6: the size of a preview datagram\<close>

text \<open>
  C6. Every preview datagram handed to \<^verbatim>\<open>sendto\<close> during \<^verbatim>\<open>run\<close> has at most 65000
  bytes. In an iteration whose encoder answers with more than 65000 bytes, no preview
  datagram is sent, the time of the last preview send stays as it was, and the iteration
  ends without an exception.
\<close>

theorem preview_datagram_bounded:
  "(Sendto s (Jpeg buf) a ok \<in> set (run_trace (run self t0 envs)) \<longrightarrow> length buf \<le> 65000) \<and>
   (read env = ReadFrame raw \<and>
    process env (cvtColor_BGR2RGB (mirrored self' raw)) = Inr hs \<and>
    (\<forall>f q. \<exists>ok' big. imencode env f q = Encoded ok' big \<and> length big > 65000) \<longrightarrow>
      \<not> raises (run_cycle self' lv env) \<and>
      last_video_send_time (state_of (run_cycle self' lv env)) = last_video_send_time self' \<and>
      (\<forall>e \<in> set (events_of (run_cycle self' lv env)). \<forall>s' buf' a' ok''.
          e \<noteq> Sendto s' (Jpeg buf') a' ok''))"
proof (intro conjI impI)
  assume "Sendto s (Jpeg buf) a ok \<in> set (run_trace (run self t0 envs))"
  from run_trace_cases[OF this] obtain st lv' env' where
    "Sendto s (Jpeg buf) a ok \<in> set (events_of (run_cycle st lv' env'))" by auto
  from run_cycle_jpeg[OF this] show "length buf \<le> 65000" by simp
next
  assume h: "read env = ReadFrame raw \<and>
    process env (cvtColor_BGR2RGB (mirrored self' raw)) = Inr hs \<and>
    (\<forall>f q. \<exists>ok' big. imencode env f q = Encoded ok' big \<and> length big > 65000)"
  then have rd: "read env = ReadFrame raw"
    and pr: "process env (cvtColor_BGR2RGB (mirrored self' raw)) = Inr hs"
    and big: "\<And>f q. \<exists>ok' big. imencode env f q = Encoded ok' big \<and> length big > 65000"
    by blast+
  obtain self1 d lms l c hdraw where fv: "frame_vars self' hs = (self1, d, lms, l, c, hdraw)"
    by (metis prod_cases3)
  from run_cycle_frame[OF rd pr fv, of lv] obtain cl cf self2 fr where
    s2: "self2 = self'\<lparr>current_letter := cl, confidence := cf,
                  fps := fps (fst (update_fps self' lv (t_fps env)))\<rparr>" and
    ev: "events_of (run_cycle self' lv env) =
       send_to_unity self' env lms l c d
       @ (if show_window self' then [Imshow fr] else [])
       @ snd (send_video_frame_to_unity self2 env fr)" and
    st: "state_of (run_cycle self' lv env) = fst (send_video_frame_to_unity self2 env fr) \<or>
      state_of (run_cycle self' lv env) =
        (fst (send_video_frame_to_unity self2 env fr))\<lparr>mirror_mode := \<not> mirror_mode self'\<rparr>" and
    nr: "\<not> raises (run_cycle self' lv env)"
    by blast
  from big obtain ok' bigbuf where
    enc: "imencode env (resized self2 fr) (np_clip (video_jpeg_quality self2) 10 95) = Encoded ok' bigbuf"
    and len: "length bigbuf > 65000" by blast
  note skip = send_video_skip[OF enc len]
  show "\<not> raises (run_cycle self' lv env)" by (rule nr)
  from st skip(1) show
    "last_video_send_time (state_of (run_cycle self' lv env)) = last_video_send_time self'"
    by (auto simp: s2)
  show "\<forall>e \<in> set (events_of (run_cycle self' lv env)). \<forall>s' buf' a' ok''.
          e \<noteq> Sendto s' (Jpeg buf') a' ok''"
    using skip(2) by (auto simp: ev send_to_unity_no_jpeg)
qed

theorem preview_datagram_witness:
  "Sendto 3 (Jpeg [255, 216]) (''127.0.0.1'', 5006) True
     \<in> set (run_trace (run (init default_config sample_init_env\<lparr>show_window := False\<rparr>) 0
               [sample_env\<lparr>key := 113\<rparr>])) \<and>
   length [255 :: 8 word, 216] \<le> 65000 \<and>
   \<not> raises (run_cycle (init default_config sample_init_env\<lparr>show_window := False\<rparr>) (0, 0)
               (sample_env\<lparr>imencode := (\<lambda>f q. Encoded True (replicate 65001 0))\<rparr>)) \<and>
   last_video_send_time
     (state_of (run_cycle (init default_config sample_init_env\<lparr>show_window := False\<rparr>) (0, 0)
               (sample_env\<lparr>imencode := (\<lambda>f q. Encoded True (replicate 65001 0))\<rparr>))) = 0 \<and>
   events_of (run_cycle (init default_config sample_init_env\<lparr>show_window := False\<rparr>) (0, 0)
               (sample_env\<lparr>imencode := (\<lambda>f q. Encoded True (replicate 65001 0))\<rparr>)) =
     [Sendto 3 (Json \<lparr>msg_hand_detected = True, msg_landmarks = extract_landmarks sample_hand,
                       msg_letter = ''A'', msg_confidence = 92 / 100, msg_timestamp = 100\<rparr>)
        (''127.0.0.1'', 5005) True,
      Imencode (of_image (cv2_flip sample_image)) 55]"
proof -
  let ?env = "sample_env\<lparr>imencode := (\<lambda>f q. Encoded True (replicate 65001 0))\<rparr>"
  let ?self = "init default_config sample_init_env\<lparr>show_window := False\<rparr>"
  have h1: "Sendto 3 (Jpeg [255, 216]) (''127.0.0.1'', 5006) True
     \<in> set (run_trace (run ?self 0 [sample_env\<lparr>key := 113\<rparr>]))"
    by (simp add: sample_run)
  have h2: "read ?env = ReadFrame sample_image \<and>
    process ?env (cvtColor_BGR2RGB (mirrored ?self sample_image)) = Inr [sample_hand] \<and>
    (\<forall>f q. \<exists>ok' big. imencode ?env f q = Encoded ok' big \<and> length big > 65000)"
    by (auto simp: sample_env_def)
  have l0: "last_video_send_time ?self = 0" by (simp add: init_def)
  have ev: "events_of (run_cycle ?self (0, 0) ?env) =
     [Sendto 3 (Json \<lparr>msg_hand_detected = True, msg_landmarks = extract_landmarks sample_hand,
                       msg_letter = ''A'', msg_confidence = 92 / 100, msg_timestamp = 100\<rparr>)
        (''127.0.0.1'', 5005) True,
      Imencode (of_image (cv2_flip sample_image)) 55]"
    by (simp add: eval_defs)
  from preview_datagram_bounded[of 3 "[255, 216]" "(''127.0.0.1'', 5006)" True
      ?self 0 "[sample_env\<lparr>key := 113\<rparr>]" ?env sample_image ?self "[sample_hand]" "(0, 0)"]
    h1 h2 l0 ev
  show ?thesis by simp
qed

subsection \<open>C7: the classifier fails closed\<close>

text \<open>
  C7. \<^verbatim>\<open>predict_letter\<close> returns a pair for every input and raises nothing: without a
  loaded model it returns \<^verbatim>\<open>("?", 0.0)\<close>, and so it does when the inference engine
  raises. An iteration that read a frame with a hand in it, and whose classifier is
  missing or raises, ends without an exception and has called \<^verbatim>\<open>sendto\<close> with a
  telemetry message that carries the hand's landmarks, the letter \<^verbatim>\<open>"?"\<close> and the
  confidence 0.
\<close>

theorem classifier_fails_closed:
  "predict_letter None lms = (''?'', 0) \<and>
   (engine lms = RunRaise \<longrightarrow> predict_letter (Some engine) lms = (''?'', 0)) \<and>
   (read env = ReadFrame raw \<and>
    process env (cvtColor_BGR2RGB (mirrored self raw)) = Inr (hl # rest) \<and>
    (onnx_session self = None \<or>
     (\<exists>f. onnx_session self = Some f \<and> f (extract_landmarks hl) = RunRaise)) \<and>
    sock self = Some s \<longrightarrow>
      \<not> raises (run_cycle self lv env) \<and>
      Sendto s (Json \<lparr>msg_hand_detected = True, msg_landmarks = extract_landmarks hl,
                       msg_letter = ''?'', msg_confidence = 0, msg_timestamp = t_send env\<rparr>)
        (udp_ip self, udp_port self) (telemetry_send_ok env)
        \<in> set (events_of (run_cycle self lv env)))"
proof (intro conjI impI)
  show "predict_letter None lms = (''?'', 0)" by (simp add: predict_letter_def)
next
  assume "engine lms = RunRaise"
  then show "predict_letter (Some engine) lms = (''?'', 0)" by (simp add: predict_letter_def)
next
  assume h: "read env = ReadFrame raw \<and>
    process env (cvtColor_BGR2RGB (mirrored self raw)) = Inr (hl # rest) \<and>
    (onnx_session self = None \<or>
     (\<exists>f. onnx_session self = Some f \<and> f (extract_landmarks hl) = RunRaise)) \<and>
    sock self = Some s"
  then have rd: "read env = ReadFrame raw"
    and pr: "process env (cvtColor_BGR2RGB (mirrored self raw)) = Inr (hl # rest)"
    and sk: "sock self = Some s" by blast+
  from h have p: "predict_letter (onnx_session self) (extract_landmarks hl) = (''?'', 0)"
    by (auto simp: predict_letter_def)
  have fv: "frame_vars self (hl # rest) =
      (self\<lparr>current_letter := ''?'', confidence := 0\<rparr>, True, extract_landmarks hl, ''?'', 0, Some hl)"
    by (simp add: frame_vars_Cons p)
  from run_cycle_frame[OF rd pr fv, of lv] obtain self2 fr where
    ev: "events_of (run_cycle self lv env) =
       send_to_unity self env (extract_landmarks hl) ''?'' 0 True
       @ (if show_window self then [Imshow fr] else [])
       @ snd (send_video_frame_to_unity self2 env fr)" and
    nr: "\<not> raises (run_cycle self lv env)"
    by blast
  show "\<not> raises (run_cycle self lv env)" by (rule nr)
  show "Sendto s (Json \<lparr>msg_hand_detected = True, msg_landmarks = extract_landmarks hl,
                       msg_letter = ''?'', msg_confidence = 0, msg_timestamp = t_send env\<rparr>)
        (udp_ip self, udp_port self) (telemetry_send_ok env)
        \<in> set (events_of (run_cycle self lv env))"
    by (simp add: ev send_to_unity_sends[OF sk])
qed

theorem classifier_fails_closed_witness:
  "predict_letter None (extract_landmarks sample_hand) = (''?'', 0) \<and>
   predict_letter (Some (\<lambda>v. RunRaise)) (extract_landmarks sample_hand) = (''?'', 0) \<and>
   \<not> raises (run_cycle (init default_config (sample_init_env\<lparr>loaded_model := None\<rparr>)) (0, 0) sample_env) \<and>
   Sendto 3 (Json \<lparr>msg_hand_detected = True, msg_landmarks = extract_landmarks sample_hand,
                    msg_letter = ''?'', msg_confidence = 0, msg_timestamp = 100\<rparr>)
     (''127.0.0.1'', 5005) True
     \<in> set (events_of (run_cycle (init default_config (sample_init_env\<lparr>loaded_model := None\<rparr>))
                  (0, 0) sample_env)) \<and>
   Sendto 3 (Json \<lparr>msg_hand_detected = True, msg_landmarks = extract_landmarks sample_hand,
                    msg_letter = ''?'', msg_confidence = 0, msg_timestamp = 100\<rparr>)
     (''127.0.0.1'', 5005) True
     \<in> set (events_of (run_cycle
                  (init default_config (sample_init_env\<lparr>loaded_model := Some (\<lambda>v. RunRaise)\<rparr>))
                  (0, 0) sample_env))"
proof -
  let ?none = "init default_config (sample_init_env\<lparr>loaded_model := None\<rparr>)"
  let ?bad = "init default_config (sample_init_env\<lparr>loaded_model := Some (\<lambda>v. RunRaise)\<rparr>)"
  have h1: "read sample_env = ReadFrame sample_image \<and>
    process sample_env (cvtColor_BGR2RGB (mirrored ?none sample_image)) = Inr (sample_hand # []) \<and>
    (onnx_session ?none = None \<or>
     (\<exists>f. onnx_session ?none = Some f \<and> f (extract_landmarks sample_hand) = RunRaise)) \<and>
    sock ?none = Some 3"
    by (simp add: sample_env_def init_def sample_init_env_def)
  have h2: "read sample_env = ReadFrame sample_image \<and>
    process sample_env (cvtColor_BGR2RGB (mirrored ?bad sample_image)) = Inr (sample_hand # []) \<and>
    (onnx_session ?bad = None \<or>
     (\<exists>f. onnx_session ?bad = Some f \<and> f (extract_landmarks sample_hand) = RunRaise)) \<and>
    sock ?bad = Some 3"
    by (simp add: sample_env_def init_def sample_init_env_def)
  have v: "udp_ip ?none = ''127.0.0.1''" "udp_port ?none = 5005"
    "udp_ip ?bad = ''127.0.0.1''" "udp_port ?bad = 5005"
    "t_send sample_env = 100" "telemetry_send_ok sample_env"
    by (simp_all add: init_def default_config_def sample_env_def)
  from classifier_fails_closed[of "extract_landmarks sample_hand" "\<lambda>v. RunRaise" sample_env
      sample_image ?none sample_hand "[]" 3 "(0, 0)"] h1
    classifier_fails_closed[of "extract_landmarks sample_hand" "\<lambda>v. RunRaise" sample_env
      sample_image ?bad sample_hand "[]" 3 "(0, 0)"] h2 v
  show ?thesis by simp
qed

subsection \<open>C8: the mirror transform\<close>


subsection \<open>C9: the confidence of a successful prediction\<close>

text \<open>
  C9. When the engine returns and its label output is not empty, the confidence is: for
  a probability output whose element 0 is a dict, the greatest of the dict's values, or
  0 when the dict is empty; for a probability output whose element 0 is not a dict, 1;
  for a probability output that is \<^verbatim>\<open>None\<close> or missing, 1.
\<close>

theorem confidence_of_successful_prediction:
  assumes "engine landmarks = RunOutputs (label # labels) others"
  shows "(others = Some (ProbDict probabilities # ps) # os \<longrightarrow>
            predict_letter (Some engine) landmarks =
              (label, if probabilities = [] then 0 else Max (snd ` set probabilities))) \<and>
         (others = Some (ProbArray row # ps) # os \<longrightarrow>
            predict_letter (Some engine) landmarks = (label, 1)) \<and>
         (others = None # os \<longrightarrow> predict_letter (Some engine) landmarks = (label, 1)) \<and>
         (others = [] \<longrightarrow> predict_letter (Some engine) landmarks = (label, 1))"
proof (intro conjI impI)
  assume o: "others = Some (ProbDict probabilities # ps) # os"
  show "predict_letter (Some engine) landmarks =
          (label, if probabilities = [] then 0 else Max (snd ` set probabilities))"
  proof (cases probabilities)
    case Nil
    with assms o show ?thesis by (simp add: predict_letter_def)
  next
    case (Cons kv kvs)
    have "py_max (snd kv) (map snd kvs) = Max (snd ` set (kv # kvs))"
      by (simp add: py_max_Max)
    with assms o Cons show ?thesis by (simp add: predict_letter_def)
  qed
next
  assume "others = Some (ProbArray row # ps) # os"
  with assms show "predict_letter (Some engine) landmarks = (label, 1)"
    by (simp add: predict_letter_def)
next
  assume "others = None # os"
  with assms show "predict_letter (Some engine) landmarks = (label, 1)"
    by (simp add: predict_letter_def)
next
  assume "others = []"
  with assms show "predict_letter (Some engine) landmarks = (label, 1)"
    by (simp add: predict_letter_def)
qed

theorem confidence_witness:
  "predict_letter (Some (\<lambda>v. RunOutputs [''B''] [Some [ProbDict [(''A'', 2 / 10), (''B'', 7 / 10), (''C'', 1 / 10)]]])) [] = (''B'', 7 / 10) \<and>
   predict_letter (Some (\<lambda>v. RunOutputs [''B''] [Some [ProbDict []]])) [] = (''B'', 0) \<and>
   predict_letter (Some (\<lambda>v. RunOutputs [''B''] [Some [ProbArray [2 / 10, 8 / 10]]])) [] = (''B'', 1) \<and>
   predict_letter (Some (\<lambda>v. RunOutputs [''B''] [None])) [] = (''B'', 1) \<and>
   predict_letter (Some (\<lambda>v. RunOutputs [''B''] [])) [] = (''B'', 1)"
proof -
  have m: "Max (snd ` set [(''A'', 2 / 10 :: real), (''B'', 7 / 10), (''C'', 1 / 10)]) = 7 / 10"
    by simp
  have a: "predict_letter (Some (\<lambda>v. RunOutputs [''B''] [Some [ProbDict [(''A'', 2 / 10), (''B'', 7 / 10), (''C'', 1 / 10)]]])) [] = (''B'', 7 / 10)"
    using confidence_of_successful_prediction[of
        "\<lambda>v. RunOutputs [''B''] [Some [ProbDict [(''A'', 2 / 10), (''B'', 7 / 10), (''C'', 1 / 10)]]]"
        "[]" "''B''" "[]" "[Some [ProbDict [(''A'', 2 / 10), (''B'', 7 / 10), (''C'', 1 / 10)]]]"
        "[(''A'', 2 / 10), (''B'', 7 / 10), (''C'', 1 / 10)]" "[]" "[]"] m
    by simp
  have b: "predict_letter (Some (\<lambda>v. RunOutputs [''B''] [Some [ProbDict []]])) [] = (''B'', 0)"
    using confidence_of_successful_prediction[of
        "\<lambda>v. RunOutputs [''B''] [Some [ProbDict []]]"
        "[]" "''B''" "[]" "[Some [ProbDict []]]" "[]" "[]" "[]"]
    by simp
  have c: "predict_letter (Some (\<lambda>v. RunOutputs [''B''] [Some [ProbArray [2 / 10, 8 / 10]]])) [] = (''B'', 1)"
    using confidence_of_successful_prediction[of
        "\<lambda>v. RunOutputs [''B''] [Some [ProbArray [2 / 10, 8 / 10]]]"
        "[]" "''B''" "[]" "[Some [ProbArray [2 / 10, 8 / 10]]]" _ _ _ "[2 / 10, 8 / 10]"]
    by simp
  have d: "predict_letter (Some (\<lambda>v. RunOutputs [''B''] [None])) [] = (''B'', 1)"
    using confidence_of_successful_prediction[of "\<lambda>v. RunOutputs [''B''] [None]"
        "[]" "''B''" "[]" "[None]"]
    by simp
  have e: "predict_letter (Some (\<lambda>v. RunOutputs [''B''] [])) [] = (''B'', 1)"
    using confidence_of_successful_prediction[of "\<lambda>v. RunOutputs [''B''] []"
        "[]" "''B''" "[]" "[]"]
    by simp
  from a b c d e show ?thesis by simp
qed

subsection \<open>C10: the frame handed to the preview encoder\<close>

text \<open>
  C10. In an iteration that read a frame, the frame given to \<^verbatim>\<open>cv2.imencode\<close> has the
  pixels of the captured frame, mirrored when mirror mode is on. With the debug window
  enabled it is the display frame: the frame shown by \<^verbatim>\<open>imshow\<close> (but for the resize
  of the encoder), with the panel, the status text, the FPS text and, when a hand was
  found, its drawn landmarks. With the debug window disabled, nothing is drawn on it.
\<close>

theorem preview_frame_is_display_frame:
  assumes rd: "read env = ReadFrame raw"
    and pr: "process env (cvtColor_BGR2RGB (mirrored self raw)) = Inr hs"
    and enc: "Imencode f q \<in> set (events_of (run_cycle self lv env))"
  shows "pixels f = mirrored self raw \<and>
    (show_window self \<longrightarrow>
       Imshow \<lparr>pixels = pixels f, ops = filter is_drawing (ops f)\<rparr>
         \<in> set (events_of (run_cycle self lv env)) \<and>
       Panel \<in> set (ops f) \<and>
       PutText (Status (hs \<noteq> [])) (20, 35) \<in> set (ops f) \<and>
       PutText (Fps (fps (fst (update_fps self lv (t_fps env))))) (20, 120) \<in> set (ops f) \<and>
       (\<forall>hl rest. hs = hl # rest \<longrightarrow> DrawLandmarks hl \<in> set (ops f))) \<and>
    (\<not> show_window self \<longrightarrow> filter is_drawing (ops f) = [])"
proof -
  obtain self1 d lms l c hdraw where fv: "frame_vars self hs = (self1, d, lms, l, c, hdraw)"
    by (metis prod_cases3)
  note hd = frame_vars_draw[OF fv]
  from run_cycle_frame[OF rd pr fv, of lv] obtain cl cf self2 fr where
    s2: "self2 = self\<lparr>current_letter := cl, confidence := cf,
                  fps := fps (fst (update_fps self lv (t_fps env)))\<rparr>" and
    fr: "fr = (if show_window self
           then draw_overlay self2 (of_image (mirrored self raw)) hdraw l c
           else of_image (mirrored self raw))" and
    ev: "events_of (run_cycle self lv env) =
       send_to_unity self env lms l c d
       @ (if show_window self then [Imshow fr] else [])
       @ snd (send_video_frame_to_unity self2 env fr)"
    by blast
  from enc ev have "Imencode f q \<in> set (snd (send_video_frame_to_unity self2 env fr))"
    by (auto simp: send_to_unity_no_imencode split: if_splits)
  from send_video_event[OF this] have f: "f = resized self2 fr" by auto
  note keep = resized_keeps[of self2 fr]
  show ?thesis
  proof (cases "show_window self")
    case False
    with fr f keep show ?thesis by (simp add: of_image_def)
  next
    case True
    with fr have fr': "fr = draw_overlay self2 (of_image (mirrored self raw)) hdraw l c" by simp
    note dr = draw_overlay_of_image[of self2 "mirrored self raw" hdraw l c, folded fr']
    from keep have sub: "\<And>x. x \<in> set (ops fr) \<Longrightarrow> x \<in> set (ops f)"
      unfolding f by blast
    have px: "pixels f = mirrored self raw"
      using keep dr by (simp add: f)
    have shown: "\<lparr>pixels = pixels f, ops = filter is_drawing (ops f)\<rparr> = fr"
      using keep dr by (simp add: f)
    have "Imshow fr \<in> set (events_of (run_cycle self lv env))"
      using True by (simp add: ev)
    with shown have window: "Imshow \<lparr>pixels = pixels f, ops = filter is_drawing (ops f)\<rparr>
         \<in> set (events_of (run_cycle self lv env))" by simp
    have f2: "fps self2 = fps (fst (update_fps self lv (t_fps env)))" by (simp add: s2)
    have st: "(hdraw \<noteq> None) = (hs \<noteq> [])" by (cases hs) (simp_all add: hd)
    have panel: "Panel \<in> set (ops f)" using dr by (intro sub) simp
    have status: "PutText (Status (hs \<noteq> [])) (20, 35) \<in> set (ops f)"
      using dr st by (intro sub) simp
    have fpst: "PutText (Fps (fps (fst (update_fps self lv (t_fps env))))) (20, 120) \<in> set (ops f)"
      using dr f2 by (intro sub) simp
    have marks: "\<forall>hl rest. hs = hl # rest \<longrightarrow> DrawLandmarks hl \<in> set (ops f)"
    proof (intro allI impI)
      fix hl rest assume "hs = hl # rest"
      then have "hdraw = Some hl" by (simp add: hd)
      with dr show "DrawLandmarks hl \<in> set (ops f)" by (intro sub) simp
    qed
    from True px window panel status fpst marks show ?thesis by simp
  qed
qed

theorem preview_frame_witness:
  "Imencode \<lparr>pixels = cv2_flip sample_image,
              ops = [DrawLandmarks sample_hand, Panel, PutText (Status True) (20, 35),
                     PutText (Letter ''A'') (20, 65), PutText (Conf (92 / 100)) (20, 95),
                     PutText (Fps (1 / 100)) (20, 120), PutText (BigLetter ''A'') (- 98, 80),
                     PutText Instructions (10, - 13)]\<rparr> 55
     \<in> set (events_of (run_cycle (init default_config sample_init_env) (0, 0) sample_env)) \<and>
   Imshow \<lparr>pixels = cv2_flip sample_image,
              ops = [DrawLandmarks sample_hand, Panel, PutText (Status True) (20, 35),
                     PutText (Letter ''A'') (20, 65), PutText (Conf (92 / 100)) (20, 95),
                     PutText (Fps (1 / 100)) (20, 120), PutText (BigLetter ''A'') (- 98, 80),
                     PutText Instructions (10, - 13)]\<rparr>
     \<in> set (events_of (run_cycle (init default_config sample_init_env) (0, 0) sample_env)) \<and>
   Imencode (of_image (cv2_flip sample_image)) 55
     \<in> set (events_of (run_cycle (init default_config sample_init_env\<lparr>show_window := False\<rparr>)
                  (0, 0) sample_env)) \<and>
   filter is_drawing (ops (of_image (cv2_flip sample_image))) = []"
proof -
  let ?shown = "\<lparr>pixels = cv2_flip sample_image,
              ops = [DrawLandmarks sample_hand, Panel, PutText (Status True) (20, 35),
                     PutText (Letter ''A'') (20, 65), PutText (Conf (92 / 100)) (20, 95),
                     PutText (Fps (1 / 100)) (20, 120), PutText (BigLetter ''A'') (- 98, 80),
                     PutText Instructions (10, - 13)]\<rparr>"
  let ?on = "init default_config sample_init_env"
  let ?off = "init default_config sample_init_env\<lparr>show_window := False\<rparr>"
  have rd: "read sample_env = ReadFrame sample_image" by (simp add: sample_env_def)
  have pr: "process sample_env (cvtColor_BGR2RGB (mirrored ?on sample_image)) = Inr [sample_hand]"
    "process sample_env (cvtColor_BGR2RGB (mirrored ?off sample_image)) = Inr [sample_hand]"
    by (simp_all add: sample_env_def)
  have e1: "Imencode ?shown 55 \<in> set (events_of (run_cycle ?on (0, 0) sample_env))"
    by (simp add: sample_cycle_window)
  have e2: "Imencode (of_image (cv2_flip sample_image)) 55
              \<in> set (events_of (run_cycle ?off (0, 0) sample_env))"
    by (simp add: sample_cycle_no_window)
  have w: "show_window ?on" "\<not> show_window ?off" by (simp_all add: init_def default_config_def)
  from preview_frame_is_display_frame[OF rd pr(1) e1] w(1)
  have shown: "Imshow \<lparr>pixels = pixels ?shown, ops = filter is_drawing (ops ?shown)\<rparr>
         \<in> set (events_of (run_cycle ?on (0, 0) sample_env))" by blast
  from preview_frame_is_display_frame[OF rd pr(2) e2] w(2)
  have plain: "filter is_drawing (ops (of_image (cv2_flip sample_image))) = []" by blast
  from shown have "Imshow ?shown \<in> set (events_of (run_cycle ?on (0, 0) sample_env))" by simp
  with e1 e2 plain show ?thesis by blast
qed

end
